theory Spec2Isabelle
  imports Complex_Main "HOL-Library.List_Lexorder" "HOL-Library.Char_ord"
begin

section \<open>Clock and calendar (server/aurora/time.ts, server/aurora/calendar.ts)\<close>

text \<open>
  JavaScript numbers are modelled as mathematical reals throughout (exact arithmetic, no
  Infinity or NaN: a division whose divisor may be zero is guarded where the source's
  result there matters), integers read from the clock as naturals.  The wall clock
  (\<open>MarketTime.now()\<close>) is an explicit argument: a luxon \<open>DateTime\<close> in the market zone, with
  the local date string \<open>yyyy-MM-dd\<close>, the ISO weekday (1 = Monday .. 7 = Sunday), the local
  time of day and the instant in epoch milliseconds, by which two \<open>DateTime\<close>s compare.
\<close>

datatype MarketSession =
    CLOSED_WEEKEND | CLOSED_HOLIDAY | CLOSED | PRE_MARKET | OPENING_RANGE
  | MORNING | AFTERNOON | POWER_HOUR | OPEN

record DateTime =
  dateStr :: string
  weekday :: nat
  hour :: nat
  minute :: nat
  second :: nat
  millisecond :: nat
  epochMs :: int

definition HOLIDAYS_2024 :: "string list" where
  "HOLIDAYS_2024 = [''2024-01-01'', ''2024-01-15'', ''2024-02-19'', ''2024-03-29'',
     ''2024-05-27'', ''2024-06-19'', ''2024-07-04'', ''2024-09-02'', ''2024-11-28'',
     ''2024-12-25'']"

definition HALF_DAYS_2024 :: "string list" where
  "HALF_DAYS_2024 = [''2024-07-03'', ''2024-11-29'', ''2024-12-24'']"

definition HOLIDAYS_2025 :: "string list" where
  "HOLIDAYS_2025 = [''2025-01-01'', ''2025-01-20'', ''2025-02-17'', ''2025-04-18'',
     ''2025-05-26'', ''2025-06-19'', ''2025-07-04'', ''2025-09-01'', ''2025-11-27'',
     ''2025-12-25'']"

definition HALF_DAYS_2025 :: "string list" where
  "HALF_DAYS_2025 = [''2025-07-03'', ''2025-11-28'', ''2025-12-24'']"

definition HOLIDAYS_2026 :: "string list" where
  "HOLIDAYS_2026 = [''2026-01-01'', ''2026-01-19'', ''2026-02-16'', ''2026-04-03'',
     ''2026-05-25'', ''2026-06-19'', ''2026-07-03'', ''2026-09-07'', ''2026-11-26'',
     ''2026-12-25'']"

definition HALF_DAYS_2026 :: "string list" where
  "HALF_DAYS_2026 = [''2026-07-02'', ''2026-11-27'', ''2026-12-24'']"

definition ALL_HOLIDAYS :: "string set" where
  "ALL_HOLIDAYS = set (HOLIDAYS_2024 @ HOLIDAYS_2025 @ HOLIDAYS_2026)"

definition ALL_HALF_DAYS :: "string set" where
  "ALL_HALF_DAYS = set (HALF_DAYS_2024 @ HALF_DAYS_2025 @ HALF_DAYS_2026)"

text \<open>\<open>MarketTime.getSession(holidays, halfDays)\<close>, the branches in source order.\<close>

definition getSession :: "DateTime \<Rightarrow> string set \<Rightarrow> string set \<Rightarrow> MarketSession" where
  "getSession now holidays halfDays =
    (if weekday now > 5 then CLOSED_WEEKEND
     else if dateStr now \<in> holidays then CLOSED_HOLIDAY
     else
       let totalMinutes = hour now * 60 + minute now;
           closeTime = (if dateStr now \<in> halfDays then 780 else 960 :: nat)
       in if totalMinutes \<ge> closeTime \<or> totalMinutes < 240 then CLOSED
          else if totalMinutes \<ge> 240 \<and> totalMinutes < 570 then PRE_MARKET
          else if totalMinutes \<ge> 570 \<and> totalMinutes < min 600 closeTime then OPENING_RANGE
          else if totalMinutes \<ge> 600 \<and> totalMinutes < min 720 closeTime then MORNING
          else if totalMinutes \<ge> 720 \<and> totalMinutes < min 780 closeTime then AFTERNOON
          else if totalMinutes \<ge> 780 \<and> totalMinutes < closeTime then POWER_HOUR
          else if totalMinutes \<ge> 570 \<and> totalMinutes < closeTime then OPEN
          else CLOSED)"

text \<open>\<open>MarketTime.isPreMarket(holidays)\<close> and \<open>MarketTime.isTradingHours(holidays, halfDays)\<close>.\<close>

definition isPreMarket :: "DateTime \<Rightarrow> string set \<Rightarrow> bool" where
  "isPreMarket now holidays =
    (if weekday now > 5 then False
     else if dateStr now \<in> holidays then False
     else let totalMinutes = hour now * 60 + minute now
          in totalMinutes \<ge> 240 \<and> totalMinutes < 570)"

definition isTradingHours :: "DateTime \<Rightarrow> string set \<Rightarrow> string set \<Rightarrow> bool" where
  "isTradingHours now holidays halfDays =
    (if weekday now > 5 then False
     else if dateStr now \<in> holidays then False
     else let totalMinutes = hour now * 60 + minute now;
              closeTime = (if dateStr now \<in> halfDays then 780 else 960 :: nat)
          in totalMinutes \<ge> 570 \<and> totalMinutes < closeTime)"

section \<open>Session tag\<close>

text \<open>
  Friday 28 November 2025, a half-day, at \<open>h:m\<close> local time (Eastern Standard Time, midnight
  is 05:00 UTC).
\<close>

definition halfDayAt :: "nat \<Rightarrow> nat \<Rightarrow> DateTime" where
  "halfDayAt h m = \<lparr>dateStr = ''2025-11-28'', weekday = 5, hour = h, minute = m, second = 0,
     millisecond = 0, epochMs = 1764306000000 + (int h * 60 + int m) * 60000\<rparr>"

text \<open>
  Claim C10.  On a date that is neither a weekend day nor a holiday, with minute-of-day
  \<open>m\<close> and close \<open>C\<close> (780 on a half-day, 960 otherwise), \<open>getSession\<close> returns CLOSED when
  \<open>m < 240\<close> or \<open>m \<ge> C\<close>, PRE_MARKET when \<open>240 \<le> m < 570\<close>, OPENING_RANGE when
  \<open>570 \<le> m < min(600, C)\<close>, MORNING when \<open>600 \<le> m < min(720, C)\<close>, AFTERNOON when
  \<open>720 \<le> m < min(780, C)\<close> and POWER_HOUR when \<open>780 \<le> m < C\<close>; on a half-day 13:30 local
  is CLOSED.
\<close>

theorem getSession_table:
  assumes "weekday now \<le> 5" and "dateStr now \<notin> holidays"
    and "m = hour now * 60 + minute now"
    and "C = (if dateStr now \<in> halfDays then 780 else 960)"
  shows "(m < 240 \<or> m \<ge> C \<longrightarrow> getSession now holidays halfDays = CLOSED)
    \<and> (240 \<le> m \<and> m < 570 \<longrightarrow> getSession now holidays halfDays = PRE_MARKET)
    \<and> (570 \<le> m \<and> m < min 600 C \<longrightarrow> getSession now holidays halfDays = OPENING_RANGE)
    \<and> (600 \<le> m \<and> m < min 720 C \<longrightarrow> getSession now holidays halfDays = MORNING)
    \<and> (720 \<le> m \<and> m < min 780 C \<longrightarrow> getSession now holidays halfDays = AFTERNOON)
    \<and> (780 \<le> m \<and> m < C \<longrightarrow> getSession now holidays halfDays = POWER_HOUR)
    \<and> (dateStr now \<in> halfDays \<and> hour now = 13 \<and> minute now = 30
          \<longrightarrow> getSession now holidays halfDays = CLOSED)"
  using assms by (auto simp: getSession_def Let_def)

theorem getSession_table_witness:
  "getSession (halfDayAt 13 30)
      ALL_HOLIDAYS ALL_HALF_DAYS = CLOSED
   \<and> getSession (halfDayAt 12 30)
      ALL_HOLIDAYS ALL_HALF_DAYS = AFTERNOON"
proof -
  let ?a = "halfDayAt 13 30"
  let ?b = "halfDayAt 12 30"
  have hol: "''2025-11-28'' \<notin> ALL_HOLIDAYS"
    by (simp add: ALL_HOLIDAYS_def HOLIDAYS_2024_def HOLIDAYS_2025_def HOLIDAYS_2026_def)
  have half: "''2025-11-28'' \<in> ALL_HALF_DAYS"
    by (simp add: ALL_HALF_DAYS_def HALF_DAYS_2024_def HALF_DAYS_2025_def HALF_DAYS_2026_def)
  have a: "getSession ?a ALL_HOLIDAYS ALL_HALF_DAYS = CLOSED"
    using getSession_table [of ?a ALL_HOLIDAYS 810 780 ALL_HALF_DAYS] hol half
    by (simp add: halfDayAt_def)
  have b: "getSession ?b ALL_HOLIDAYS ALL_HALF_DAYS = AFTERNOON"
    using getSession_table [of ?b ALL_HOLIDAYS 750 780 ALL_HALF_DAYS] hol half
    by (simp add: halfDayAt_def)
  show ?thesis using a b by simp
qed

section \<open>Risk projector (server/math/options\_risk.ts)\<close>

text \<open>
  \<open>Number(x.toFixed(2))\<close>: the decimal with two fractional digits nearest to \<open>x\<close>, the
  larger magnitude on a tie (toFixed negates a negative argument first).
\<close>

definition toFixed2 :: "real \<Rightarrow> real" where
  "toFixed2 x =
    (if x < 0 then - (of_int \<lfloor>(- x) * 100 + 1 / 2\<rfloor> / 100)
     else of_int \<lfloor>x * 100 + 1 / 2\<rfloor> / 100)"

record StockLevels =
  entry :: real
  stop :: real
  target :: real

record Greeks =
  delta :: real
  gamma :: real

record OptionTradePlan =
  contractEntry :: real
  contractStop :: real
  contractTarget :: real
  underlyingTrigger :: real
  riskReward :: real

definition calculate :: "real \<Rightarrow> real \<Rightarrow> StockLevels \<Rightarrow> Greeks \<Rightarrow> OptionTradePlan" where
  "calculate currentOptionAsk currentStockPrice stockLevels greeks =
    (let distToStop = stop stockLevels - entry stockLevels;
         distToTarget = target stockLevels - entry stockLevels;
         absDelta = \<bar>delta greeks\<bar>;
         stopLossDrop = \<bar>distToStop\<bar> * absDelta;
         targetGain = \<bar>distToTarget\<bar> * absDelta;
         estimatedStop = max 0.05 (currentOptionAsk - stopLossDrop);
         estimatedTarget = max 0.05 (currentOptionAsk + targetGain);
         risk = currentOptionAsk - estimatedStop;
         reward = estimatedTarget - currentOptionAsk;
         riskReward = (if risk > 0 then toFixed2 (reward / risk) else 0)
     in \<lparr>contractEntry = toFixed2 currentOptionAsk,
         contractStop = toFixed2 estimatedStop,
         contractTarget = toFixed2 estimatedTarget,
         underlyingTrigger = entry stockLevels,
         riskReward = riskReward\<rparr>)"

definition getMidPrice :: "real \<Rightarrow> real \<Rightarrow> real" where
  "getMidPrice bid ask =
    (if bid \<le> 0 \<and> ask \<le> 0 then 0
     else if bid \<le> 0 then ask
     else if ask \<le> 0 then bid
     else (bid + ask) / 2)"

lemma toFixed2_near: "\<bar>toFixed2 x - x\<bar> \<le> 1 / 200"
proof -
  have a: "\<bar>of_int \<lfloor>y * 100 + 1 / 2\<rfloor> / 100 - y\<bar> \<le> 1 / 200" for y :: real
  proof -
    define n :: real where "n = of_int \<lfloor>y * 100 + 1 / 2\<rfloor>"
    have "n \<le> y * 100 + 1 / 2" unfolding n_def by linarith
    moreover have "y * 100 + 1 / 2 < n + 1" unfolding n_def by linarith
    ultimately have "\<bar>n / 100 - y\<bar> \<le> 1 / 200" by linarith
    then show ?thesis unfolding n_def .
  qed
  show ?thesis
  proof (cases "x < 0")
    case True
    have "\<bar>- (of_int \<lfloor>(- x) * 100 + 1 / 2\<rfloor> / 100) - x\<bar>
        = \<bar>of_int \<lfloor>(- x) * 100 + 1 / 2\<rfloor> / 100 - (- x)\<bar>" by linarith
    with True show ?thesis using a [of "- x"] by (simp only: toFixed2_def if_True)
  next
    case False
    then show ?thesis using a [of x] by (simp add: toFixed2_def)
  qed
qed

lemma toFixed2_cents: "\<exists>n::int. toFixed2 x * 100 = of_int n"
proof (cases "x < 0")
  case True
  then have "toFixed2 x * 100 = of_int (- \<lfloor>(- x) * 100 + 1 / 2\<rfloor>)" by (simp add: toFixed2_def)
  then show ?thesis ..
next
  case False
  then have "toFixed2 x * 100 = of_int \<lfloor>x * 100 + 1 / 2\<rfloor>" by (simp add: toFixed2_def)
  then show ?thesis ..
qed


text \<open>
  Claim C8 (amended).  The projector returns the clamped delta projections of the claim
  rounded to two decimals: with \<open>S = max(0.05, midNow - |stop - entry| * |delta|)\<close> and
  \<open>T = max(0.05, midNow + |target - entry| * |delta|)\<close>, the plan is
  \<open>contractEntry = round2 midNow\<close>, \<open>contractStop = round2 S\<close>, \<open>contractTarget = round2 T\<close>,
  \<open>riskReward = round2 ((T - midNow) / (midNow - S))\<close> when \<open>midNow - S > 0\<close> and 0 otherwise;
  the returned stop and target are whole cents within half a cent of \<open>S\<close> and \<open>T\<close>.  With
  delta = -0.5, midNow = 1.20, stop distance 1 and target distance 2 the plan is
  entry 1.20, stop 0.70, target 2.20, riskReward 2.
\<close>

theorem calculate_rounded_projection:
  fixes midNow price :: real and lv :: StockLevels and gk :: Greeks
  defines "S \<equiv> max 0.05 (midNow - \<bar>stop lv - entry lv\<bar> * \<bar>delta gk\<bar>)"
    and "T \<equiv> max 0.05 (midNow + \<bar>target lv - entry lv\<bar> * \<bar>delta gk\<bar>)"
  shows "contractEntry (calculate midNow price lv gk) = toFixed2 midNow
    \<and> contractStop (calculate midNow price lv gk) = toFixed2 S
    \<and> contractTarget (calculate midNow price lv gk) = toFixed2 T
    \<and> riskReward (calculate midNow price lv gk)
        = (if midNow - S > 0 then toFixed2 ((T - midNow) / (midNow - S)) else 0)
    \<and> \<bar>contractStop (calculate midNow price lv gk) - S\<bar> \<le> 1 / 200
    \<and> \<bar>contractTarget (calculate midNow price lv gk) - T\<bar> \<le> 1 / 200
    \<and> (\<exists>n::int. contractStop (calculate midNow price lv gk) * 100 = of_int n)
    \<and> (\<exists>n::int. contractTarget (calculate midNow price lv gk) * 100 = of_int n)
    \<and> calculate 1.20 452 \<lparr>entry = 452, stop = 453, target = 450\<rparr> \<lparr>delta = - 0.5, gamma = g\<rparr>
        = \<lparr>contractEntry = 1.20, contractStop = 0.70, contractTarget = 2.20,
           underlyingTrigger = 452, riskReward = 2\<rparr>"
proof -
  have e: "contractEntry (calculate midNow price lv gk) = toFixed2 midNow"
    by (simp add: calculate_def Let_def)
  have s: "contractStop (calculate midNow price lv gk) = toFixed2 S"
    by (simp add: calculate_def Let_def S_def)
  have t: "contractTarget (calculate midNow price lv gk) = toFixed2 T"
    by (simp add: calculate_def Let_def T_def)
  have r: "riskReward (calculate midNow price lv gk)
        = (if midNow - S > 0 then toFixed2 ((T - midNow) / (midNow - S)) else 0)"
    by (simp add: calculate_def Let_def S_def T_def)
  have x: "calculate 1.20 452 \<lparr>entry = 452, stop = 453, target = 450\<rparr> \<lparr>delta = - 0.5, gamma = g\<rparr>
        = \<lparr>contractEntry = 1.20, contractStop = 0.70, contractTarget = 2.20,
           underlyingTrigger = 452, riskReward = 2\<rparr>"
    by (simp add: calculate_def Let_def toFixed2_def)
  show ?thesis
    unfolding s t using e r x toFixed2_near [of S] toFixed2_near [of T]
      toFixed2_cents [of S] toFixed2_cents [of T] by (simp only: simp_thms)
qed

theorem calculate_unrounded_counterexample:
  "contractStop (calculate 2 450 \<lparr>entry = 450, stop = 449, target = 452\<rparr> \<lparr>delta = 1 / 16, gamma = 0\<rparr>)
     = 1.94
   \<and> max 0.05 (2 - \<bar>449 - 450\<bar> * \<bar>1 / 16\<bar>) = (1.9375 :: real)
   \<and> contractStop (calculate 2 450 \<lparr>entry = 450, stop = 449, target = 452\<rparr> \<lparr>delta = 1 / 16, gamma = 0\<rparr>)
     \<noteq> max 0.05 (2 - \<bar>449 - 450\<bar> * \<bar>1 / 16\<bar>)"
  by (simp add: calculate_def Let_def toFixed2_def)

section \<open>Optimizer genes (server/praxis/evolution.ts)\<close>

record StrategyGenes =
  tpoWeight :: real
  rsiWeight :: real
  ibWeight :: real
  cvdWeight :: real
  vwapWeight :: real
  minConfidence :: real
  orbBreakoutMultiplier :: real
  stopLossMultiplier :: real
  targetMultiplier :: real

definition DEFAULT_GENES :: StrategyGenes where
  "DEFAULT_GENES = \<lparr>tpoWeight = 0.25, rsiWeight = 0.20, ibWeight = 0.20, cvdWeight = 0.15,
     vwapWeight = 0.20, minConfidence = 60, orbBreakoutMultiplier = 1.0,
     stopLossMultiplier = 0.5, targetMultiplier = 2.0\<rparr>"









definition weightSum :: "StrategyGenes \<Rightarrow> real" where
  "weightSum g = tpoWeight g + rsiWeight g + ibWeight g + cvdWeight g + vwapWeight g"
















section \<open>Stored predictions, outcomes and candles (shared/schema.ts, server/aurora/parallax.ts)\<close>

datatype PredictionDirection = CALL | PUT

datatype PredictionEngine = TPO_MIT | BLACK_SCHOLES | ORB_MOMENTUM | ENSEMBLE

text \<open>
  The in-memory \<open>Prediction\<close> of parallax.ts, without its free-form \<open>reasoning\<close> blob (no code
  modelled here reads it).  A nullable number is an \<open>option\<close>.
\<close>

record Prediction =
  ticker :: string
  category :: string
  direction :: PredictionDirection
  strike :: real
  entryPrice :: "real option"
  confidence :: real
  session :: MarketSession
  engine :: PredictionEngine
  entryTrigger :: "real option"
  stopLoss :: "real option"
  takeProfit :: "real option"
  riskRewardRatio :: "real option"

text \<open>
  A row of \<open>aurora_parallax_predictions\<close>: the prediction, its serial \<open>id\<close>, the text column
  \<open>status\<close> and \<open>generated_at\<close> (as the ISO string \<open>toISOString\<close> prints).
\<close>

record PredictionRow = Prediction +
  rowId :: nat
  status :: string
  generatedAt :: "string option"

record OutcomeRow =
  outcomeId :: nat
  predictionId :: nat
  actualPnl :: "real option"
  result :: string
  closedAt :: "string option"

record Candle =
  timestamp :: int
  openPrice :: real
  high :: real
  low :: real
  close :: real
  volume :: real

record CandleRow = Candle +
  candleTicker :: string

record Database =
  predictions :: "PredictionRow list"
  outcomes :: "OutcomeRow list"
  candles :: "CandleRow list"
  nextPredictionId :: nat
  nextOutcomeId :: nat

definition emptyDatabase :: Database where
  "emptyDatabase = \<lparr>predictions = [], outcomes = [], candles = [],
     nextPredictionId = 1, nextOutcomeId = 1\<rparr>"

text \<open>\<open>db.insert(auroraParallaxOutcomes).values(...)\<close>: the serial column numbers the row.\<close>

definition insertOutcome :: "nat \<Rightarrow> real option \<Rightarrow> string \<Rightarrow> string option \<Rightarrow> Database \<Rightarrow> Database" where
  "insertOutcome pid pnl res cl db =
     db\<lparr>outcomes := outcomes db @
            [\<lparr>outcomeId = nextOutcomeId db, predictionId = pid, actualPnl = pnl,
              result = res, closedAt = cl\<rparr>],
        nextOutcomeId := nextOutcomeId db + 1\<rparr>"

text \<open>\<open>db.update(auroraParallaxPredictions).set({ status }).where(eq(id, pid))\<close>.\<close>

definition setStatus :: "nat \<Rightarrow> string \<Rightarrow> Database \<Rightarrow> Database" where
  "setStatus pid st db =
     db\<lparr>predictions := map (\<lambda>p. if rowId p = pid then p\<lparr>status := st\<rparr> else p) (predictions db)\<rparr>"

text \<open>\<open>select ... where status = 'ACTIVE'\<close>, optionally for one ticker.\<close>

definition activeRows :: "Database \<Rightarrow> PredictionRow list" where
  "activeRows db = filter (\<lambda>p. status p = ''ACTIVE'') (predictions db)"

definition getActivePredictions :: "Database \<Rightarrow> string \<Rightarrow> PredictionRow list" where
  "getActivePredictions db t =
     filter (\<lambda>p. status p = ''ACTIVE'' \<and> ticker p = t) (predictions db)"

text \<open>
  \<open>select ... from candles where ticker = t order by timestamp desc limit 1\<close>: the row of the
  ticker with the greatest timestamp (the earliest inserted one among equal timestamps).
\<close>

fun lastCandle :: "string \<Rightarrow> CandleRow list \<Rightarrow> CandleRow option" where
  "lastCandle t [] = None"
| "lastCandle t (c # cs) =
     (if candleTicker c = t
      then (case lastCandle t cs of
              None \<Rightarrow> Some c
            | Some d \<Rightarrow> if timestamp d > timestamp c then Some d else Some c)
      else lastCandle t cs)"

section \<open>Optimizer fitness (server/praxis/evolution.ts)\<close>

text \<open>The inner join of outcomes and predictions on \<open>prediction_id = id\<close>.\<close>

definition outcomesJoined :: "Database \<Rightarrow> (OutcomeRow \<times> PredictionRow) list" where
  "outcomesJoined db =
     [(oc, p). oc \<leftarrow> outcomes db, p \<leftarrow> predictions db, predictionId oc = rowId p]"

definition pnlOf :: "OutcomeRow \<times> PredictionRow \<Rightarrow> real" where
  "pnlOf row = (case actualPnl (fst row) of Some v \<Rightarrow> v | None \<Rightarrow> 0)"

text \<open>The loop \<open>for (const row of outcomes) { if (pnl > 0) wins++; totalPnl += pnl }\<close>.\<close>

fun fitnessLoop :: "(OutcomeRow \<times> PredictionRow) list \<Rightarrow> nat \<times> real \<Rightarrow> nat \<times> real" where
  "fitnessLoop [] acc = acc"
| "fitnessLoop (row # rows) (winCount, totalPnl) =
     fitnessLoop rows ((if pnlOf row > 0 then winCount + 1 else winCount), totalPnl + pnlOf row)"

definition calculateFitness :: "StrategyGenes \<Rightarrow> Database \<Rightarrow> real" where
  "calculateFitness genes db =
    (let rows = outcomesJoined db
     in if length rows = 0 then 0.5
        else let (winCount, totalPnl) = fitnessLoop rows (0, 0);
                 winRate = real winCount / real (length rows);
                 avgPnl = totalPnl / real (length rows)
             in winRate * 0.7 + (if avgPnl > 0 then 0.3 else 0))"

text \<open>The two statistics as the claim names them, over the joined rows.\<close>

definition winRateOf :: "(OutcomeRow \<times> PredictionRow) list \<Rightarrow> real" where
  "winRateOf rows = real (length (filter (\<lambda>r. pnlOf r > 0) rows)) / real (length rows)"

definition averagePnl :: "(OutcomeRow \<times> PredictionRow) list \<Rightarrow> real" where
  "averagePnl rows = sum_list (map pnlOf rows) / real (length rows)"

lemma fitnessLoop_eq:
  "fitnessLoop rows (w, t)
     = (w + length (filter (\<lambda>r. pnlOf r > 0) rows), t + sum_list (map pnlOf rows))"
  by (induction rows arbitrary: w t) (simp_all add: add.assoc)

text \<open>
  Claim C4.  The fitness is 0.5 when the join of outcomes and predictions is empty, and
  otherwise 0.7 times the win rate (the share of joined rows with a positive PnL) plus 0.3
  when the average PnL is positive; two candidate gene vectors evaluated against the same
  stored outcomes get the same fitness.
\<close>

theorem calculateFitness_ignores_genes:
  "(outcomesJoined db = [] \<longrightarrow> calculateFitness g1 db = 0.5)
   \<and> (outcomesJoined db \<noteq> [] \<longrightarrow>
        calculateFitness g1 db
          = 0.7 * winRateOf (outcomesJoined db)
            + (if averagePnl (outcomesJoined db) > 0 then 0.3 else 0))
   \<and> calculateFitness g1 db = calculateFitness g2 db"
  by (simp add: calculateFitness_def Let_def fitnessLoop_eq winRateOf_def averagePnl_def)


text \<open>Two stored predictions used as concrete inputs below.\<close>

definition sampleCall :: PredictionRow where
  "sampleCall = \<lparr>ticker = ''SPY'', category = ''SPY_DAILY'', direction = CALL, strike = 450,
     entryPrice = Some 450, confidence = 65, session = MORNING, engine = TPO_MIT,
     entryTrigger = Some 1, stopLoss = Some 0.5, takeProfit = Some 2, riskRewardRatio = Some 2,
     rowId = 1, status = ''ACTIVE'', generatedAt = Some ''2025-11-26T15:00:00.000Z''\<rparr>"

definition samplePut :: PredictionRow where
  "samplePut = sampleCall\<lparr>direction := PUT, rowId := 2\<rparr>"

definition sampleCandle :: CandleRow where
  "sampleCandle = \<lparr>timestamp = 1764169260000, openPrice = 453, high = 454, low = 453,
     close = 454, volume = 1000, candleTicker = ''SPY''\<rparr>"

definition gradedDatabase :: Database where
  "gradedDatabase = \<lparr>predictions = [sampleCall\<lparr>status := ''CLOSED''\<rparr>, samplePut\<lparr>status := ''CLOSED''\<rparr>],
     outcomes = [\<lparr>outcomeId = 1, predictionId = 1, actualPnl = Some 2, result = ''WIN'',
                  closedAt = Some ''2025-11-26T15:01:00.000Z''\<rparr>,
                 \<lparr>outcomeId = 2, predictionId = 2, actualPnl = Some (- 0.5), result = ''LOSS'',
                  closedAt = Some ''2025-11-26T15:01:00.000Z''\<rparr>],
     candles = [sampleCandle], nextPredictionId = 3, nextOutcomeId = 3\<rparr>"

lemma outcomesJoined_gradedDatabase: "length (outcomesJoined gradedDatabase) = 2"
  by (simp add: outcomesJoined_def gradedDatabase_def sampleCall_def samplePut_def)

theorem calculateFitness_ignores_genes_witness:
  "outcomesJoined emptyDatabase = []
   \<and> calculateFitness DEFAULT_GENES emptyDatabase = 0.5
   \<and> outcomesJoined gradedDatabase \<noteq> []
   \<and> calculateFitness DEFAULT_GENES gradedDatabase = 0.65
   \<and> calculateFitness (DEFAULT_GENES\<lparr>tpoWeight := 0.5, minConfidence := 75\<rparr>) gradedDatabase = 0.65"
proof -
  have e: "outcomesJoined emptyDatabase = []"
    by (simp add: outcomesJoined_def emptyDatabase_def)
  have n: "outcomesJoined gradedDatabase \<noteq> []"
    using outcomesJoined_gradedDatabase by auto
  have w: "winRateOf (outcomesJoined gradedDatabase) = 1 / 2"
    by (simp add: winRateOf_def pnlOf_def outcomesJoined_def gradedDatabase_def sampleCall_def
        samplePut_def)
  have a: "averagePnl (outcomesJoined gradedDatabase) = 3 / 4"
    by (simp add: averagePnl_def pnlOf_def outcomesJoined_def gradedDatabase_def sampleCall_def
        samplePut_def)
  show ?thesis
    using e n w a
      calculateFitness_ignores_genes [of emptyDatabase DEFAULT_GENES DEFAULT_GENES]
      calculateFitness_ignores_genes [of gradedDatabase DEFAULT_GENES
        "DEFAULT_GENES\<lparr>tpoWeight := 0.5, minConfidence := 75\<rparr>"]
    by simp
qed

section \<open>Grader (server/aurora/reconcile.ts)\<close>

record GradeResults =
  graded :: nat
  wins :: nat
  losses :: nat

text \<open>
  The premium estimate of \<open>gradeOpenTrades\<close> (the lines from \<open>const currentPrice\<close> to
  \<open>const currentPremium\<close>), for one stored prediction and the close of its latest candle.
\<close>

definition estimateCurrentPremium :: "PredictionRow \<Rightarrow> real \<Rightarrow> real" where
  "estimateCurrentPremium pred currentPrice =
    (let entryPremium = (case entryTrigger pred of Some v \<Rightarrow> v | None \<Rightarrow> 0);
         estimatedDelta = (if direction pred = CALL then 0.5 else - 0.5);
         underlyingMove = currentPrice - (case entryPrice pred of Some e \<Rightarrow> e | None \<Rightarrow> strike pred);
         estimatedPremiumChange = underlyingMove * \<bar>estimatedDelta\<bar>
     in max 0.01 (entryPremium + estimatedPremiumChange))"

text \<open>
  The body of the loop over the ACTIVE rows read at the start of the call; \<open>pred\<close> is the row
  as read then, \<open>nowIso\<close> the value of \<open>new Date()\<close>.
\<close>

definition gradeOne :: "string \<Rightarrow> PredictionRow \<Rightarrow> Database \<times> GradeResults \<Rightarrow> Database \<times> GradeResults" where
  "gradeOne nowIso pred = (\<lambda>(db, res).
    (let entryPremium = (case entryTrigger pred of Some v \<Rightarrow> v | None \<Rightarrow> 0);
         stopPremium = (case stopLoss pred of Some v \<Rightarrow> v | None \<Rightarrow> 0);
         targetPremium = (case takeProfit pred of Some v \<Rightarrow> v | None \<Rightarrow> 0)
     in if entryPremium \<le> 0 then (db, res)
        else (case lastCandle (ticker pred) (candles db) of
                None \<Rightarrow> (db, res)
              | Some c \<Rightarrow>
                  (let currentPrice = close c;
                       currentPremium = estimateCurrentPremium pred currentPrice;
                       pnl = currentPremium - entryPremium;
                       isWin = (if currentPremium \<ge> targetPremium then True
                                else if currentPremium \<le> stopPremium then False
                                else pnl > 0);
                       db1 = insertOutcome (rowId pred) (Some pnl)
                               (if isWin then ''WIN'' else ''LOSS'') (Some nowIso) db;
                       db2 = setStatus (rowId pred) ''CLOSED'' db1
                   in (db2, res\<lparr>graded := graded res + 1,
                                wins := (if isWin then wins res + 1 else wins res),
                                losses := (if isWin then losses res else losses res + 1)\<rparr>)))))"

text \<open>
  \<open>Reconcile.gradeOpenTrades()\<close>.  The retraining trigger after the loop writes the parameter
  tables only, which are not part of \<open>Database\<close>; database calls do not fail in the model.
\<close>

definition gradeOpenTrades :: "string \<Rightarrow> Database \<Rightarrow> Database \<times> GradeResults" where
  "gradeOpenTrades nowIso db =
    (let results = \<lparr>graded = 0, wins = 0, losses = 0\<rparr>;
         activePredictions = activeRows db
     in if length activePredictions = 0 then (db, results)
        else fold (gradeOne nowIso) activePredictions (db, results))"

text \<open>\<open>Reconcile.expireStale(todayDate)\<close>; strings compare as in JavaScript, by code unit.\<close>

definition expireOne :: "string \<Rightarrow> PredictionRow \<Rightarrow> Database \<times> nat \<Rightarrow> Database \<times> nat" where
  "expireOne todayDate pred = (\<lambda>(db, expired).
     (case generatedAt pred of
        None \<Rightarrow> (db, expired)
      | Some stamp \<Rightarrow>
          (let generatedDate = take 10 stamp
           in if generatedDate < todayDate
              then (setStatus (rowId pred) ''EXPIRED'' db, expired + 1)
              else (db, expired))))"

definition expireStale :: "string \<Rightarrow> Database \<Rightarrow> Database \<times> nat" where
  "expireStale todayDate db = fold (expireOne todayDate) (activeRows db) (db, 0)"


text \<open>The sign of the claim: +1 for a CALL, -1 for a PUT.\<close>

definition directionSign :: "PredictionDirection \<Rightarrow> real" where
  "directionSign d = (if d = CALL then 1 else - 1)"

definition putDatabase :: Database where
  "putDatabase = \<lparr>predictions = [samplePut], outcomes = [], candles = [sampleCandle],
     nextPredictionId = 3, nextOutcomeId = 1\<rparr>"

lemma estimateCurrentPremium_unsigned:
  "estimateCurrentPremium pred currentPrice
     = max 0.01 ((case entryTrigger pred of Some v \<Rightarrow> v | None \<Rightarrow> 0)
         + (currentPrice - (case entryPrice pred of Some e \<Rightarrow> e | None \<Rightarrow> strike pred)) * 0.5)"
  by (simp add: estimateCurrentPremium_def Let_def)

lemma estimateCurrentPremium_call:
  "direction pred = CALL \<Longrightarrow>
   estimateCurrentPremium pred currentPrice
     = max 0.01 ((case entryTrigger pred of Some v \<Rightarrow> v | None \<Rightarrow> 0)
         + (currentPrice - (case entryPrice pred of Some e \<Rightarrow> e | None \<Rightarrow> strike pred))
           * directionSign (direction pred) * 0.5)"
  by (simp add: estimateCurrentPremium_def Let_def directionSign_def)

text \<open>
  Claim C1, at a PUT.  The stored PUT has entry premium 1.00, stop 0.50, target 2.00 and
  predicted entry stock 450; its latest candle closes at 454.  The claim gives the premium
  \<open>max(0.01, 1 + (454 - 450) * (-1) * 0.5) = 0.01\<close>; the grader computes 3.00, because it takes
  the absolute value of the signed delta, and records a WIN with PnL 2.00.
\<close>

theorem gradeOpenTrades_put_premium:
  "estimateCurrentPremium samplePut (close sampleCandle) = 3
   \<and> max 0.01 (1 + (454 - 450) * directionSign PUT * 0.5) = 0.01
   \<and> outcomes (fst (gradeOpenTrades ''2025-11-26T15:01:00.000Z'' putDatabase))
       = [\<lparr>outcomeId = 1, predictionId = 2, actualPnl = Some 2, result = ''WIN'',
            closedAt = Some ''2025-11-26T15:01:00.000Z''\<rparr>]
   \<and> map status (predictions (fst (gradeOpenTrades ''2025-11-26T15:01:00.000Z'' putDatabase)))
       = [''CLOSED'']"
  by (simp add: gradeOpenTrades_def gradeOne_def estimateCurrentPremium_def activeRows_def
      putDatabase_def samplePut_def sampleCall_def sampleCandle_def insertOutcome_def
      setStatus_def directionSign_def Let_def)

section \<open>Indicator kernel: TPO profile (server/math/tpo.ts)\<close>

datatype Impulse = BULLISH | BEARISH | NEUTRAL

datatype TPOBias = LONG | SHORT | NEUTRAL_BIAS

text \<open>
  \<open>profileData\<close> is the object \<open>volumeByPrice\<close>: an association list from price to volume, in
  the order in which the keys were first written.
\<close>

record TPOProfile =
  poc :: real
  vah :: real
  val :: real
  impulse :: Impulse
  profileData :: "(real \<times> real) list"
  totalVolume :: real
  priceRangeHigh :: real
  priceRangeLow :: real

text \<open>\<open>Math.round(x)\<close> is \<open>floor(x + 0.5)\<close>.\<close>

definition mathRound :: "real \<Rightarrow> int" where
  "mathRound x = \<lfloor>x + 1 / 2\<rfloor>"

definition roundToTick :: "real \<Rightarrow> real \<Rightarrow> real" where
  "roundToTick price tickSize = of_int (mathRound (price / tickSize)) * tickSize"

text \<open>\<open>volumeByPrice[price] || 0\<close> and \<open>volumeByPrice[price] = (volumeByPrice[price] || 0) + v\<close>.\<close>

definition volumeAt :: "(real \<times> real) list \<Rightarrow> real \<Rightarrow> real" where
  "volumeAt m price = (case map_of m price of Some v \<Rightarrow> v | None \<Rightarrow> 0)"

fun addVolume :: "real \<Rightarrow> real \<Rightarrow> (real \<times> real) list \<Rightarrow> (real \<times> real) list" where
  "addVolume price v [] = [(price, v)]"
| "addVolume price v ((k, w) # m) =
     (if k = price then (k, w + v) # m else (k, w) # addVolume price v m)"

text \<open>
  The inner loop \<open>for (price = low; price <= high; price = roundToTick(price + tickSize))\<close>.
  The tick size is 0.25 at every call; the source loop does not end for a tick size that is
  not positive, where the model stops at once.
\<close>

function tickLoop :: "real \<Rightarrow> real \<Rightarrow> real \<Rightarrow> real \<Rightarrow> (real \<times> real) list \<times> real
    \<Rightarrow> (real \<times> real) list \<times> real" where
  "tickLoop tickSize volumePerTick hi price (volumeByPrice, totalVol) =
     (if 0 < tickSize \<and> price \<le> hi
      then tickLoop tickSize volumePerTick hi (roundToTick (price + tickSize) tickSize)
             (addVolume price volumePerTick volumeByPrice, totalVol + volumePerTick)
      else (volumeByPrice, totalVol))"
  by pat_completeness auto

lemma roundToTick_step:
  assumes "0 < tickSize"
  shows "price + tickSize / 2 \<le> roundToTick (price + tickSize) tickSize"
proof -
  define q :: real where "q = (price + tickSize) / tickSize"
  define n :: real where "n = of_int \<lfloor>q + 1 / 2\<rfloor>"
  have "q + 1 / 2 < n + 1" unfolding n_def by linarith
  then have "q - 1 / 2 \<le> n" by simp
  then have "(q - 1 / 2) * tickSize \<le> n * tickSize"
    using assms by (simp add: mult_right_mono)
  moreover have "q * tickSize = price + tickSize"
    using assms by (simp add: q_def)
  ultimately have "price + tickSize / 2 \<le> n * tickSize"
    by (simp add: left_diff_distrib)
  then show ?thesis by (simp add: roundToTick_def mathRound_def n_def q_def)
qed

lemma tick_measure_step:
  fixes hi price p' tickSize :: real
  assumes a: "0 < tickSize" "price \<le> hi" and s: "price + tickSize / 2 \<le> p'"
  shows "nat (\<lfloor>2 * (hi - p') / tickSize\<rfloor> + 1) < nat (\<lfloor>2 * (hi - price) / tickSize\<rfloor> + 1)"
proof -
  have "2 * (hi - p') \<le> 2 * (hi - price) - tickSize" using s by simp
  then have "2 * (hi - p') / tickSize \<le> (2 * (hi - price) - tickSize) / tickSize"
    using a by (simp add: divide_right_mono)
  also have "\<dots> = 2 * (hi - price) / tickSize - 1"
    using a by (simp add: diff_divide_distrib)
  finally have "\<lfloor>2 * (hi - p') / tickSize\<rfloor> \<le> \<lfloor>2 * (hi - price) / tickSize - 1\<rfloor>"
    by (rule floor_mono)
  then have le: "\<lfloor>2 * (hi - p') / tickSize\<rfloor> + 1 \<le> \<lfloor>2 * (hi - price) / tickSize\<rfloor>"
    by simp
  have "0 \<le> 2 * (hi - price) / tickSize" using a by simp
  then have "0 \<le> \<lfloor>2 * (hi - price) / tickSize\<rfloor>" by simp
  with le show ?thesis by simp
qed

termination tickLoop
proof (relation "measure (\<lambda>(tickSize, v, hi, price, acc). nat (\<lfloor>2 * (hi - price) / tickSize\<rfloor> + 1))")
  show "wf (measure (\<lambda>(tickSize, v, hi, price, acc). nat (\<lfloor>2 * (hi - price) / tickSize\<rfloor> + 1)))"
    by simp
next
  fix tickSize volumePerTick hi price :: real and volumeByPrice :: "(real \<times> real) list"
    and totalVol :: real
  assume a: "0 < tickSize \<and> price \<le> hi"
  have "nat (\<lfloor>2 * (hi - roundToTick (price + tickSize) tickSize) / tickSize\<rfloor> + 1)
      < nat (\<lfloor>2 * (hi - price) / tickSize\<rfloor> + 1)"
    using a by (intro tick_measure_step roundToTick_step) simp_all
  then show "((tickSize, volumePerTick, hi, roundToTick (price + tickSize) tickSize,
        addVolume price volumePerTick volumeByPrice, totalVol + volumePerTick),
       tickSize, volumePerTick, hi, price, volumeByPrice, totalVol)
      \<in> measure (\<lambda>(tickSize, v, hi, price, acc). nat (\<lfloor>2 * (hi - price) / tickSize\<rfloor> + 1))"
    by (simp only: in_measure prod.case)
qed

declare tickLoop.simps [simp del]

text \<open>The loop over the candles: the histogram, the totalVol volume and the session range.\<close>

fun candleLoop :: "real \<Rightarrow> Candle list \<Rightarrow> (real \<times> real) list \<times> real \<Rightarrow> (real \<times> real) list \<times> real" where
  "candleLoop tickSize [] acc = acc"
| "candleLoop tickSize (candle # rest) acc =
     (let lo = roundToTick (low candle) tickSize;
          hi = roundToTick (high candle) tickSize;
          numTicks = max 1 (of_int (mathRound ((hi - lo) / tickSize)) + 1);
          volumePerTick = volume candle / numTicks
      in candleLoop tickSize rest (tickLoop tickSize volumePerTick hi lo acc))"

text \<open>The point of control: the lowest price with the greatest volume above 0.\<close>

fun pocLoop :: "(real \<times> real) list \<Rightarrow> real list \<Rightarrow> real \<times> real \<Rightarrow> real \<times> real" where
  "pocLoop m [] acc = acc"
| "pocLoop m (price # rest) (pocPrice, maxVolume) =
     (if volumeAt m price > maxVolume then pocLoop m rest (price, volumeAt m price)
      else pocLoop m rest (pocPrice, maxVolume))"

fun indexOf :: "real list \<Rightarrow> real \<Rightarrow> nat" where
  "indexOf [] x = 0"
| "indexOf (y # ys) x = (if y = x then 0 else Suc (indexOf ys x))"

text \<open>The value-area loop; \<open>highIndex < pricesSorted.length - 1\<close> is \<open>highIndex + 1 < length\<close>.\<close>

function valueAreaLoop :: "(real \<times> real) list \<Rightarrow> real list \<Rightarrow> real \<Rightarrow> real \<times> nat \<times> nat
    \<Rightarrow> real \<times> nat \<times> nat" where
  "valueAreaLoop m pricesSorted targetVolume (currentVolume, lowIndex, highIndex) =
     (if currentVolume < targetVolume \<and> (lowIndex > 0 \<or> highIndex + 1 < length pricesSorted)
      then
        (let lowCandidate = (if lowIndex > 0 then volumeAt m (pricesSorted ! (lowIndex - 1)) else 0);
             highCandidate = (if highIndex + 1 < length pricesSorted
                              then volumeAt m (pricesSorted ! (highIndex + 1)) else 0)
         in if lowCandidate \<ge> highCandidate \<and> lowIndex > 0
            then valueAreaLoop m pricesSorted targetVolume
                   (currentVolume + lowCandidate, lowIndex - 1, highIndex)
            else if highIndex + 1 < length pricesSorted
            then valueAreaLoop m pricesSorted targetVolume
                   (currentVolume + highCandidate, lowIndex, highIndex + 1)
            else if lowIndex > 0
            then valueAreaLoop m pricesSorted targetVolume
                   (currentVolume + lowCandidate, lowIndex - 1, highIndex)
            else (currentVolume, lowIndex, highIndex))
      else (currentVolume, lowIndex, highIndex))"
  by pat_completeness auto
termination
  by (relation "measure (\<lambda>(m, ps, t, c, lowIndex, highIndex). lowIndex + (length ps - highIndex))")
    auto

declare valueAreaLoop.simps [simp del]

definition buildTPOProfile :: "Candle list \<Rightarrow> real \<Rightarrow> real \<Rightarrow> TPOProfile option" where
  "buildTPOProfile candleList tickSize valueAreaPercent =
    (case candleList of
       [] \<Rightarrow> None
     | first # others \<Rightarrow>
        (let (volumeByPrice, totalVol) = candleLoop tickSize candleList ([], 0);
             sessionHigh = fold max (map high others) (high first);
             sessionLow = fold min (map low others) (low first)
         in if length volumeByPrice = 0 then None
            else
              (let pricesSorted = sort (map fst volumeByPrice);
                   (pocPrice, maxVolume) = pocLoop volumeByPrice pricesSorted (pricesSorted ! 0, 0);
                   targetVolume = totalVol * valueAreaPercent;
                   pocIndex = indexOf pricesSorted pocPrice;
                   (currentVolume, lowIndex, highIndex) =
                      valueAreaLoop volumeByPrice pricesSorted targetVolume
                        (volumeAt volumeByPrice pocPrice, pocIndex, pocIndex);
                   openP = openPrice first;
                   closeP = close (last candleList);
                   priceChange = closeP - openP;
                   range = sessionHigh - sessionLow;
                   changePercent = (if range > 0 then \<bar>priceChange\<bar> / range else 0);
                   imp = (if changePercent < 0.1 then NEUTRAL
                          else if priceChange > 0 then BULLISH else BEARISH)
               in Some \<lparr>poc = roundToTick pocPrice tickSize,
                         vah = roundToTick (pricesSorted ! highIndex) tickSize,
                         val = roundToTick (pricesSorted ! lowIndex) tickSize,
                         impulse = imp, profileData = volumeByPrice, totalVolume = totalVol,
                         priceRangeHigh = sessionHigh, priceRangeLow = sessionLow\<rparr>)))"

text \<open>
  \<open>getTPOSignal\<close>, the bias only.  \<open>Math.abs(currentPrice - poc) / poc < 0.001\<close> is false in
  JavaScript when \<open>poc\<close> is 0 (the quotient is Infinity or NaN).
\<close>

definition getTPOSignal :: "real \<Rightarrow> TPOProfile \<Rightarrow> TPOBias" where
  "getTPOSignal currentPrice profile =
    (if currentPrice > vah profile then SHORT
     else if currentPrice < val profile then LONG
     else if poc profile \<noteq> 0 \<and> \<bar>currentPrice - poc profile\<bar> / poc profile < 0.001 then NEUTRAL_BIAS
     else if currentPrice > poc profile then LONG
     else SHORT)"

text \<open>Guarded unfoldings of the two loops, for evaluation.\<close>

lemma tickLoop_go:
  "0 < t \<Longrightarrow> p \<le> hi \<Longrightarrow>
   tickLoop t v hi p (m, tot) = tickLoop t v hi (roundToTick (p + t) t) (addVolume p v m, tot + v)"
  by (simp add: tickLoop.simps)

lemma tickLoop_done: "hi < p \<Longrightarrow> tickLoop t v hi p (m, tot) = (m, tot)"
  by (simp add: tickLoop.simps)

lemma valueAreaLoop_done:
  "\<not> c < tv \<Longrightarrow> valueAreaLoop m ps tv (c, i, j) = (c, i, j)"
  by (simp add: valueAreaLoop.simps)

section \<open>Indicator kernel: technical indicators (server/math/technicals.ts)\<close>

datatype RSISignal = OVERSOLD | OVERBOUGHT | NEUTRAL_RSI

record TechnicalSnapshot =
  rsi14 :: "real option"
  rsi5 :: "real option"
  sma9 :: "real option"
  sma20 :: "real option"
  vwap :: "real option"
  bollingerUpper :: "real option"
  bollingerLower :: "real option"
  atr :: "real option"

text \<open>\<open>values.slice(-period)\<close> for a positive period, and a sum accumulated from 0.\<close>

definition lastN :: "nat \<Rightarrow> 'a list \<Rightarrow> 'a list" where
  "lastN period values = drop (length values - period) values"

definition accumulate :: "real list \<Rightarrow> real" where
  "accumulate values = fold (\<lambda>v acc. acc + v) values 0"

definition calculateSMA :: "real list \<Rightarrow> nat \<Rightarrow> real option" where
  "calculateSMA values period =
    (if length values < period then None
     else Some (accumulate (lastN period values) / real period))"

text \<open>Wilder smoothing of the values after the first \<open>period\<close> ones.\<close>

definition wilder :: "nat \<Rightarrow> real list \<Rightarrow> real \<Rightarrow> real" where
  "wilder period values start =
     fold (\<lambda>v avg. (avg * (real period - 1) + v) / real period) values start"

definition calculateRSI :: "real list \<Rightarrow> nat \<Rightarrow> real option" where
  "calculateRSI closes period =
    (if length closes < period + 1 then None
     else
       (let changes = map (\<lambda>(prev, cur). cur - prev) (zip closes (tl closes));
            gains = map (\<lambda>change. if change > 0 then change else 0) changes;
            losses = map (\<lambda>change. if change < 0 then \<bar>change\<bar> else 0) changes
        in if length gains < period then None
           else
             (let avgGain = wilder period (drop period gains)
                              (accumulate (take period gains) / real period);
                  avgLoss = wilder period (drop period losses)
                              (accumulate (take period losses) / real period)
              in if avgLoss = 0 then Some 100
                 else Some (100 - 100 / (1 + avgGain / avgLoss)))))"

definition vwapLoop :: "Candle list \<Rightarrow> real \<times> real" where
  "vwapLoop candleList =
     fold (\<lambda>candle (cumulativeTPV, cumulativeVolume).
             (cumulativeTPV + (high candle + low candle + close candle) / 3 * volume candle,
              cumulativeVolume + volume candle))
       candleList (0, 0)"

definition calculateVWAP :: "Candle list \<Rightarrow> real option" where
  "calculateVWAP candleList =
    (if length candleList = 0 then None
     else (let (cumulativeTPV, cumulativeVolume) = vwapLoop candleList
           in if cumulativeVolume = 0 then None else Some (cumulativeTPV / cumulativeVolume)))"

definition calculateBollingerBands :: "real list \<Rightarrow> nat \<Rightarrow> real \<Rightarrow> (real \<times> real \<times> real) option" where
  "calculateBollingerBands closes period multiplier =
    (case calculateSMA closes period of
       None \<Rightarrow> None
     | Some sma \<Rightarrow>
        (let squaredDiffs = map (\<lambda>v. (v - sma) ^ 2) (lastN period closes);
             variance = accumulate squaredDiffs / real period;
             stdDev = sqrt variance
         in Some (sma + multiplier * stdDev, sma, sma - multiplier * stdDev)))"

definition calculateATR :: "Candle list \<Rightarrow> nat \<Rightarrow> real option" where
  "calculateATR candleList period =
    (if length candleList < period + 1 then None
     else
       (let trueRanges =
              map (\<lambda>(prev, cur).
                     max (max (high cur - low cur) \<bar>high cur - close prev\<bar>) \<bar>low cur - close prev\<bar>)
                (zip candleList (tl candleList))
        in if length trueRanges < period then None
           else Some (wilder period (drop period trueRanges)
                        (accumulate (take period trueRanges) / real period))))"

definition computeTechnicalSnapshot :: "Candle list \<Rightarrow> TechnicalSnapshot" where
  "computeTechnicalSnapshot candleList =
    (let closes = map close candleList;
         bollingerResult = calculateBollingerBands closes 20 2
     in \<lparr>rsi14 = calculateRSI closes 14,
         rsi5 = calculateRSI closes 5,
         sma9 = calculateSMA closes 9,
         sma20 = calculateSMA closes 20,
         vwap = calculateVWAP candleList,
         bollingerUpper = map_option fst bollingerResult,
         bollingerLower = map_option (\<lambda>b. snd (snd b)) bollingerResult,
         atr = calculateATR candleList 14\<rparr>)"

definition getRSISignal :: "real \<Rightarrow> RSISignal" where
  "getRSISignal r = (if r < 30 then OVERSOLD else if r > 70 then OVERBOUGHT else NEUTRAL_RSI)"

section \<open>Indicator kernel: institutional flow (server/math/institutional.ts)\<close>

datatype OpeningType = OPEN_DRIVE | OPEN_TEST_DRIVE | OPEN_REJECTION_REVERSE | OPEN_AUCTION

record InitialBalance =
  ibHigh :: real
  ibLow :: real
  ibWidth :: real
  openingType :: OpeningType
  isClean :: bool

record OrderFlowSnapshot =
  flowDelta :: real
  cumulativeDelta :: real
  anchoredVwap :: real
  cvdDivergence :: bool

text \<open>\<open>Math.max(...xs)\<close> and \<open>Math.min(...xs)\<close> of a non-empty list.\<close>

fun mathMax :: "real list \<Rightarrow> real" where
  "mathMax [] = 0"
| "mathMax (x # xs) = fold max xs x"

fun mathMin :: "real list \<Rightarrow> real" where
  "mathMin [] = 0"
| "mathMin (x # xs) = fold min xs x"

definition classifyOpeningType :: "real \<Rightarrow> real \<Rightarrow> real \<Rightarrow> real \<Rightarrow> Candle list \<Rightarrow> OpeningType" where
  "classifyOpeningType openP ibHi ibLo ibW ibCandles =
    (if length ibCandles < 2 then OPEN_AUCTION
     else
       (let closeP = close (last ibCandles);
            openToHighDist = ibHi - openP;
            openToLowDist = openP - ibLo;
            closeToHighDist = ibHi - closeP;
            closeToLowDist = closeP - ibLo;
            threshold = ibW * 0.2
        in if openToLowDist < threshold \<and> closeToHighDist < threshold then OPEN_DRIVE
           else if openToHighDist < threshold \<and> closeToLowDist < threshold then OPEN_DRIVE
           else if openToLowDist < threshold \<and> closeToLowDist < threshold then OPEN_REJECTION_REVERSE
           else if openToHighDist < threshold \<and> closeToHighDist < threshold then OPEN_REJECTION_REVERSE
           else if list_ex (\<lambda>c. low c = ibLo) ibCandles \<and> list_ex (\<lambda>c. high c = ibHi) ibCandles
                   \<and> \<bar>closeP - openP\<bar> < ibW * 0.3
           then OPEN_TEST_DRIVE
           else OPEN_AUCTION))"

text \<open>
  \<open>calculateInitialBalance(candles, ibDurationMinutes)\<close>; \<open>setSeconds(0, 0)\<close> takes the first
  timestamp back to the start of its minute.
\<close>

definition calculateInitialBalance :: "Candle list \<Rightarrow> int \<Rightarrow> InitialBalance option" where
  "calculateInitialBalance candleList ibDurationMinutes =
    (case candleList of
       [] \<Rightarrow> None
     | firstCandle # others \<Rightarrow>
        (let marketOpenTime = timestamp firstCandle - timestamp firstCandle mod 60000;
             ibCutoff = marketOpenTime + ibDurationMinutes * 60 * 1000;
             ibCandles = filter (\<lambda>c. timestamp c < ibCutoff) candleList
         in if length ibCandles = 0 then None
            else
              (let ibHi = mathMax (map high ibCandles);
                   ibLo = mathMin (map low ibCandles);
                   ibW = ibHi - ibLo;
                   openP = openPrice firstCandle
               in Some \<lparr>ibHigh = ibHi, ibLow = ibLo, ibWidth = ibW,
                         openingType = classifyOpeningType openP ibHi ibLo ibW ibCandles,
                         isClean = (\<not> list_ex (\<lambda>(prevC, c). \<bar>openPrice c - close prevC\<bar> > ibW * 0.1)
                                        (zip ibCandles (tl ibCandles)))\<rparr>)))"

text \<open>\<open>calculateDelta\<close>: \<open>(candle.high - candle.low || 1)\<close> is 1 when the range is 0.\<close>

definition calculateDelta :: "Candle \<Rightarrow> real" where
  "calculateDelta candle =
    (let body = close candle - openPrice candle;
         bodyPercent = \<bar>body\<bar> / (if high candle - low candle = 0 then 1 else high candle - low candle);
         sgn = (if body \<ge> 0 then 1 else - 1)
     in sgn * volume candle * bodyPercent)"

definition calculateAnchoredVWAP :: "Candle list \<Rightarrow> nat \<Rightarrow> real option" where
  "calculateAnchoredVWAP candleList anchorIndex =
    (if length candleList = 0 \<or> anchorIndex \<ge> length candleList then None
     else (let (cumulativeTPV, cumulativeVolume) = vwapLoop (drop anchorIndex candleList)
           in if cumulativeVolume = 0 then None else Some (cumulativeTPV / cumulativeVolume)))"

definition computeOrderFlowSnapshot :: "Candle list \<Rightarrow> nat \<Rightarrow> OrderFlowSnapshot option" where
  "computeOrderFlowSnapshot candleList anchorIndex =
    (if length candleList = 0 then None
     else
       (let lastC = last candleList;
            d = calculateDelta lastC;
            cumulative = accumulate (map calculateDelta candleList)
        in case calculateAnchoredVWAP candleList anchorIndex of
             None \<Rightarrow> None
           | Some avwap \<Rightarrow>
              (let priceUp = (length candleList > 1 \<and> close lastC > close (hd candleList));
                   cvdUp = (cumulative > 0)
               in Some \<lparr>flowDelta = d, cumulativeDelta = cumulative, anchoredVwap = avwap,
                         cvdDivergence = (priceUp \<noteq> cvdUp)\<rparr>)))"

definition flat :: "int \<Rightarrow> Candle" where
  "flat t = \<lparr>timestamp = t, openPrice = 100, high = 100, low = 100, close = 100, volume = 1\<rparr>"

definition flatWindow :: "Candle list" where
  "flatWindow = [flat 1764167400000, flat 1764167460000, flat 1764167520000, flat 1764167580000, flat 1764167640000, flat 1764167700000, flat 1764167760000, flat 1764167820000, flat 1764167880000, flat 1764167940000, flat 1764168000000, flat 1764168060000, flat 1764168120000, flat 1764168180000, flat 1764168240000, flat 1764168300000, flat 1764168360000, flat 1764168420000, flat 1764168480000, flat 1764168540000, flat 1764168600000, flat 1764168660000, flat 1764168720000, flat 1764168780000, flat 1764168840000, flat 1764168900000, flat 1764168960000, flat 1764169020000, flat 1764169080000, flat 1764169140000]"

section \<open>Trade plans from stock levels (server/math/orb.ts, server/math/risk.ts)\<close>

record ORBLevels =
  orbHigh :: real
  orbLow :: real
  orbMid :: real
  rangeSize :: real
  targetBull1 :: real
  targetBull2 :: real
  targetBear1 :: real
  targetBear2 :: real
  stopLossLong :: real
  stopLossShort :: real

record TradePlan =
  planEntry :: real
  planStop :: real
  planTarget :: real
  planRiskReward :: real

text \<open>
  The loop of \<open>calculateORB\<close>; \<open>None\<close> stands for the initial \<open>-Infinity\<close> and \<open>Infinity\<close>, which
  \<open>isFinite\<close> rejects.
\<close>

fun orbLoop :: "Candle list \<Rightarrow> real option \<times> real option \<Rightarrow> real option \<times> real option" where
  "orbLoop [] acc = acc"
| "orbLoop (c # cs) (rangeHigh, rangeLow) =
     orbLoop cs
       ((case rangeHigh of None \<Rightarrow> Some (high c)
                         | Some h \<Rightarrow> if high c > h then Some (high c) else Some h),
        (case rangeLow of None \<Rightarrow> Some (low c)
                        | Some l \<Rightarrow> if low c < l then Some (low c) else Some l))"

definition calculateORB :: "Candle list \<Rightarrow> ORBLevels option" where
  "calculateORB candleList =
    (if length candleList = 0 then None
     else (case orbLoop candleList (None, None) of
             (Some rangeHigh, Some rangeLow) \<Rightarrow>
               (let width = rangeHigh - rangeLow;
                    midPoint = rangeLow + width / 2
                in Some \<lparr>orbHigh = rangeHigh, orbLow = rangeLow, orbMid = midPoint, rangeSize = width,
                          targetBull1 = rangeHigh + width, targetBull2 = rangeHigh + width * 2,
                          targetBear1 = rangeLow - width, targetBear2 = rangeLow - width * 2,
                          stopLossLong = midPoint, stopLossShort = midPoint\<rparr>)
           | _ \<Rightarrow> None))"

definition mkPlan :: "real \<Rightarrow> real \<Rightarrow> real \<Rightarrow> real \<Rightarrow> real \<Rightarrow> TradePlan" where
  "mkPlan e s t risk reward =
     \<lparr>planEntry = e, planStop = s, planTarget = t,
      planRiskReward = (if risk > 0 then reward / risk else 0)\<rparr>"

definition fromORB :: "ORBLevels \<Rightarrow> PredictionDirection \<Rightarrow> TradePlan" where
  "fromORB levels d =
    (if d = CALL
     then (let e = orbHigh levels + 0.05; s = stopLossLong levels; t = targetBull1 levels
           in mkPlan e s t (e - s) (t - e))
     else (let e = orbLow levels - 0.05; s = stopLossShort levels; t = targetBear1 levels
           in mkPlan e s t (s - e) (e - t)))"

definition fromTPO :: "TPOProfile \<Rightarrow> real \<Rightarrow> PredictionDirection \<Rightarrow> real \<Rightarrow> TradePlan" where
  "fromTPO profile currentPrice d atrValue =
    (if d = PUT
     then (let e = currentPrice; s = vah profile + atrValue; t = poc profile
           in mkPlan e s t (s - e) (e - t))
     else (let e = currentPrice; s = val profile - atrValue; t = poc profile
           in mkPlan e s t (e - s) (t - e)))"

definition fromBlackScholes :: "real \<Rightarrow> real \<Rightarrow> PredictionDirection \<Rightarrow> TradePlan" where
  "fromBlackScholes currentPrice expectedMove d =
    (if d = CALL
     then (let e = currentPrice; s = currentPrice - expectedMove * 0.5;
               t = currentPrice + expectedMove * 1.0
           in mkPlan e s t (e - s) (t - e))
     else (let e = currentPrice; s = currentPrice + expectedMove * 0.5;
               t = currentPrice - expectedMove * 1.0
           in mkPlan e s t (s - e) (e - t)))"

section \<open>Black-Scholes pre-market engine (server/math/blackscholes.ts)\<close>

record BlackScholesOutput =
  bsPrice :: real
  bsDelta :: real
  bsGamma :: real
  bsTheta :: real
  bsVega :: real
  bsRho :: real

record PreMarketPrediction =
  pmDirection :: PredictionDirection
  pmStrike :: real
  pmConfidence :: real
  pmTheoreticalPrice :: real
  pmExpectedMove :: real

definition normalCDF :: "real \<Rightarrow> real" where
  "normalCDF x0 =
    (let a1 = 0.254829592; a2 = - 0.284496736; a3 = 1.421413741; a4 = - 1.453152027;
         a5 = 1.061405429; p = 0.3275911;
         sgn = (if x0 < 0 then - 1 else 1);
         x = \<bar>x0\<bar> / sqrt 2;
         t = 1 / (1 + p * x);
         y = 1 - (((((a5 * t + a4) * t) + a3) * t + a2) * t + a1) * t * exp (- x * x)
     in 0.5 * (1 + sgn * y))"

definition normalPDF :: "real \<Rightarrow> real" where
  "normalPDF x = exp (- 0.5 * x * x) / sqrt (2 * pi)"

definition calculateBlackScholes ::
    "real \<Rightarrow> real \<Rightarrow> real \<Rightarrow> real \<Rightarrow> real \<Rightarrow> PredictionDirection \<Rightarrow> BlackScholesOutput" where
  "calculateBlackScholes spotPrice strikePrice timeToExpiry riskFreeRate volatility optionType =
    (if timeToExpiry \<le> 0
     then \<lparr>bsPrice = (if optionType = CALL then max 0 (spotPrice - strikePrice)
                       else max 0 (strikePrice - spotPrice)),
           bsDelta = (if optionType = CALL then (if spotPrice > strikePrice then 1 else 0)
                      else (if spotPrice < strikePrice then - 1 else 0)),
           bsGamma = 0, bsTheta = 0, bsVega = 0, bsRho = 0\<rparr>
     else
       (let sqrtT = sqrt timeToExpiry;
            d1 = (ln (spotPrice / strikePrice)
                  + (riskFreeRate + 0.5 * volatility * volatility) * timeToExpiry)
                 / (volatility * sqrtT);
            d2 = d1 - volatility * sqrtT;
            Nd1 = normalCDF d1; Nd2 = normalCDF d2;
            NnegD1 = normalCDF (- d1); NnegD2 = normalCDF (- d2);
            nd1 = normalPDF d1;
            discountFactor = exp (- riskFreeRate * timeToExpiry);
            price = (if optionType = CALL
                     then spotPrice * Nd1 - strikePrice * discountFactor * Nd2
                     else strikePrice * discountFactor * NnegD2 - spotPrice * NnegD1);
            dlt = (if optionType = CALL then Nd1 else - NnegD1);
            gam = nd1 / (spotPrice * volatility * sqrtT);
            thetaBase = - (spotPrice * nd1 * volatility) / (2 * sqrtT);
            theta = (if optionType = CALL
                     then thetaBase - riskFreeRate * strikePrice * discountFactor * Nd2
                     else thetaBase + riskFreeRate * strikePrice * discountFactor * NnegD2) / 365;
            vega = spotPrice * sqrtT * nd1 / 100;
            rho = (if optionType = CALL
                   then strikePrice * timeToExpiry * discountFactor * Nd2 / 100
                   else - strikePrice * timeToExpiry * discountFactor * NnegD2 / 100)
        in \<lparr>bsPrice = max 0 price, bsDelta = dlt, bsGamma = gam, bsTheta = theta,
            bsVega = vega, bsRho = rho\<rparr>))"

definition getExpectedMove :: "real \<Rightarrow> real \<Rightarrow> real \<Rightarrow> real" where
  "getExpectedMove spotPrice volatility timeToExpiry = spotPrice * volatility * sqrt timeToExpiry"

text \<open>\<open>generatePreMarketPrediction\<close>, without the \<open>reasoning\<close> strings.\<close>

definition generatePreMarketPrediction ::
    "string \<Rightarrow> real \<Rightarrow> real \<Rightarrow> real \<Rightarrow> Impulse \<Rightarrow> PreMarketPrediction option" where
  "generatePreMarketPrediction tk spotPrice volatility riskFreeRate bias =
    (let timeToExpiry = 1 / 365;
         expectedMove = getExpectedMove spotPrice volatility timeToExpiry
     in if bias = BULLISH \<or> bias = BEARISH
        then
          (let d = (if bias = BULLISH then CALL else PUT);
               strikeOffset = spotPrice * 0.005;
               strikeP = (if d = CALL
                          then of_int \<lceil>(spotPrice + strikeOffset) / 0.5\<rceil> * 0.5
                          else of_int \<lfloor>(spotPrice - strikeOffset) / 0.5\<rfloor> * 0.5);
               bsResult = calculateBlackScholes spotPrice strikeP timeToExpiry riskFreeRate
                            volatility d;
               moneyness = (if d = CALL then (spotPrice - strikeP) / spotPrice
                            else (strikeP - spotPrice) / spotPrice);
               c0 = 50;
               c1 = (if moneyness > - 0.02 \<and> moneyness < 0 then c0 + 10 else c0);
               c2 = (if volatility > 0.3 \<and> volatility < 0.5 then c1 + 5 else c1);
               c3 = c2 + 5
           in Some \<lparr>pmDirection = d, pmStrike = strikeP,
                     pmConfidence = min 100 (max 0 c3),
                     pmTheoreticalPrice = bsPrice bsResult, pmExpectedMove = expectedMove\<rparr>)
        else None)"

section \<open>Signal fuser (server/aurora/parallax.ts)\<close>

record ConfidenceWeights =
  wTpo :: real
  wRsi :: real
  wIb :: real
  wCvd :: real
  wVwap :: real

text \<open>\<open>confidenceComponents\<close>: a record of optional scores (a key that was never set is \<open>None\<close>).\<close>

record ConfidenceComponents =
  cTpo :: "real option"
  cRsi :: "real option"
  cIb :: "real option"
  cCvd :: "real option"
  cVwap :: "real option"

definition weightsOfGenes :: "StrategyGenes \<Rightarrow> ConfidenceWeights" where
  "weightsOfGenes genes = \<lparr>wTpo = tpoWeight genes, wRsi = rsiWeight genes, wIb = ibWeight genes,
     wCvd = cvdWeight genes, wVwap = vwapWeight genes\<rparr>"

text \<open>A row of \<open>aurora_praxis_parameters\<close> and \<open>Evolution.getActiveGenes(ticker)\<close>.\<close>

record ParameterRow =
  paramName :: string
  config :: StrategyGenes
  isActive :: bool
  lastUpdated :: int

fun latestParameter :: "ParameterRow list \<Rightarrow> ParameterRow option" where
  "latestParameter [] = None"
| "latestParameter (r # rs) =
     (case latestParameter rs of
        None \<Rightarrow> Some r
      | Some q \<Rightarrow> if lastUpdated q > lastUpdated r then Some q else Some r)"

definition getActiveGenes :: "ParameterRow list \<Rightarrow> string \<Rightarrow> StrategyGenes" where
  "getActiveGenes rows tk =
    (case latestParameter (filter (\<lambda>r. paramName r = tk \<and> isActive r) rows) of
       None \<Rightarrow> DEFAULT_GENES
     | Some r \<Rightarrow> config r)"

text \<open>\<open>getWeightsFromPraxis\<close> with its module-level cache as explicit state.\<close>

type_synonym GenesCache = "string \<Rightarrow> (StrategyGenes \<times> int) option"

definition getWeightsFromPraxis ::
    "int \<Rightarrow> ParameterRow list \<Rightarrow> GenesCache \<Rightarrow> string \<Rightarrow> ConfidenceWeights \<times> GenesCache" where
  "getWeightsFromPraxis nowMs rows cache tk =
    (case cache tk of
       None \<Rightarrow> (let genes = getActiveGenes rows tk
                in (weightsOfGenes genes, cache(tk \<mapsto> (genes, nowMs))))
     | Some (cachedGenes, lastRefresh) \<Rightarrow>
         if nowMs - lastRefresh > 60000
         then (let genes = getActiveGenes rows tk
               in (weightsOfGenes genes, cache(tk \<mapsto> (genes, nowMs))))
         else (weightsOfGenes cachedGenes, cache))"

definition addComponent :: "real option \<Rightarrow> real \<Rightarrow> real \<times> real \<Rightarrow> real \<times> real" where
  "addComponent component weight = (\<lambda>(totalScore, weightSum).
     (case component of
        None \<Rightarrow> (totalScore, weightSum)
      | Some c \<Rightarrow> (totalScore + c * weight, weightSum + weight)))"

definition calculateConfidence :: "ConfidenceComponents \<Rightarrow> ConfidenceWeights \<Rightarrow> real" where
  "calculateConfidence components weights =
    (let (totalScore, weightSum) =
           addComponent (cVwap components) (wVwap weights)
             (addComponent (cCvd components) (wCvd weights)
               (addComponent (cIb components) (wIb weights)
                 (addComponent (cRsi components) (wRsi weights)
                   (addComponent (cTpo components) (wTpo weights) (0, 0)))))
     in if weightSum > 0 then (totalScore / weightSum) * 100 else 50)"

definition selectStrike :: "real \<Rightarrow> PredictionDirection \<Rightarrow> real \<Rightarrow> real" where
  "selectStrike currentPrice d tickSize =
    (let offset = (if d = CALL then 1 else - 1);
         otmAmount = currentPrice * 0.005;
         rawStrike = currentPrice + offset * otmAmount
     in of_int (mathRound (rawStrike / tickSize)) * tickSize)"

text \<open>The five component scores of \<open>generateTPOMITPrediction\<close>.\<close>

definition scoreComponents ::
    "real \<Rightarrow> TPOBias \<Rightarrow> RSISignal \<Rightarrow> TechnicalSnapshot \<Rightarrow> InitialBalance option
      \<Rightarrow> OrderFlowSnapshot option \<Rightarrow> ConfidenceComponents" where
  "scoreComponents currentPrice tpoBias rsiSignal technicals ib orderFlow =
    \<lparr>cTpo = Some (if tpoBias = LONG then 0.7 else if tpoBias = SHORT then 0.7 else 0.3),
     cRsi = Some (if rsiSignal = OVERSOLD then 0.8 else if rsiSignal = OVERBOUGHT then 0.8 else 0.5),
     cIb = (case ib of
              None \<Rightarrow> None
            | Some b \<Rightarrow> Some (if currentPrice > ibHigh b \<or> currentPrice < ibLow b then 0.75 else 0.4)),
     cCvd = (case orderFlow of
               None \<Rightarrow> None
             | Some f \<Rightarrow> Some (if cvdDivergence f then 0.65 else 0.5)),
     cVwap = (case orderFlow of
                None \<Rightarrow> None
              | Some f \<Rightarrow>
                 (case vwap technicals of
                    None \<Rightarrow> None
                  | Some v \<Rightarrow>
                     Some (if v \<noteq> 0 \<and> \<bar>currentPrice - v\<bar> / v < 0.01 then 0.6
                           else if v \<noteq> 0 \<and> \<bar>currentPrice - v\<bar> / v < 0.02 then 0.5
                           else 0.4)))\<rparr>"

text \<open>The direction rule of \<open>generateTPOMITPrediction\<close>.\<close>

definition liveDirection :: "TPOBias \<Rightarrow> RSISignal \<Rightarrow> PredictionDirection option" where
  "liveDirection tpoBias rsiSignal =
    (if tpoBias = LONG \<or> (rsiSignal = OVERSOLD \<and> tpoBias = NEUTRAL_BIAS) then Some CALL
     else if tpoBias = SHORT \<or> (rsiSignal = OVERBOUGHT \<and> tpoBias = NEUTRAL_BIAS) then Some PUT
     else None)"

definition planFields :: "TradePlan \<Rightarrow> Prediction \<Rightarrow> Prediction" where
  "planFields plan p = p\<lparr>entryTrigger := Some (planEntry plan), stopLoss := Some (planStop plan),
     takeProfit := Some (planTarget plan), riskRewardRatio := Some (planRiskReward plan)\<rparr>"

text \<open>
  \<open>generateTPOMITPrediction(ticker, category, candles, currentPrice)\<close>, given the weights that
  \<open>getWeightsFromPraxis\<close> returned and the clock read by \<open>MarketTime.getSession\<close>.
\<close>

definition generateTPOMITPrediction ::
    "ConfidenceWeights \<Rightarrow> DateTime \<Rightarrow> string \<Rightarrow> string \<Rightarrow> Candle list \<Rightarrow> real \<Rightarrow> Prediction option" where
  "generateTPOMITPrediction weights now tk cat candleList currentPrice =
    (if length candleList < 30 then None
     else
       (case buildTPOProfile candleList 0.25 0.70 of
          None \<Rightarrow> None
        | Some tpoProfile \<Rightarrow>
           (let technicals = computeTechnicalSnapshot candleList;
                ib = calculateInitialBalance candleList 60;
                orderFlow = computeOrderFlowSnapshot candleList 0;
                tpoBias = getTPOSignal currentPrice tpoProfile;
                rsiSignal = (case rsi14 technicals of
                               Some r \<Rightarrow> getRSISignal r | None \<Rightarrow> NEUTRAL_RSI);
                confidenceComponents =
                  scoreComponents currentPrice tpoBias rsiSignal technicals ib orderFlow;
                conf = calculateConfidence confidenceComponents weights
            in if conf < 60 then None
               else
                 (case liveDirection tpoBias rsiSignal of
                    None \<Rightarrow> None
                  | Some d \<Rightarrow>
                     (let atrValue = (case atr technicals of Some a \<Rightarrow> a | None \<Rightarrow> 2.0);
                          tradePlan = fromTPO tpoProfile currentPrice d atrValue
                      in Some (planFields tradePlan
                           \<lparr>ticker = tk, category = cat, direction = d,
                            strike = selectStrike currentPrice d 1,
                            entryPrice = Some currentPrice, confidence = conf,
                            session = getSession now ALL_HOLIDAYS ALL_HALF_DAYS,
                            engine = TPO_MIT, entryTrigger = None, stopLoss = None,
                            takeProfit = None, riskRewardRatio = None\<rparr>))))))"

definition generateBlackScholesPrediction ::
    "DateTime \<Rightarrow> string \<Rightarrow> string \<Rightarrow> real \<Rightarrow> real \<Rightarrow> Impulse \<Rightarrow> Prediction option" where
  "generateBlackScholesPrediction now tk cat spotPrice volatility bias =
    (case generatePreMarketPrediction tk spotPrice volatility 0.05 bias of
       None \<Rightarrow> None
     | Some preMarketPred \<Rightarrow>
        if pmConfidence preMarketPred < 60 then None
        else
          (let tradePlan = fromBlackScholes spotPrice (pmExpectedMove preMarketPred)
                             (pmDirection preMarketPred)
           in Some (planFields tradePlan
                \<lparr>ticker = tk, category = cat, direction = pmDirection preMarketPred,
                 strike = pmStrike preMarketPred,
                 entryPrice = Some (pmTheoreticalPrice preMarketPred),
                 confidence = pmConfidence preMarketPred,
                 session = getSession now ALL_HOLIDAYS ALL_HALF_DAYS,
                 engine = BLACK_SCHOLES, entryTrigger = None, stopLoss = None,
                 takeProfit = None, riskRewardRatio = None\<rparr>)))"

text \<open>
  \<open>MarketTime.getMarketOpen(now)\<close> as an instant: 09:30:00.000 of the local day of \<open>now\<close>.
\<close>

definition getMarketOpenMs :: "DateTime \<Rightarrow> int" where
  "getMarketOpenMs now =
     epochMs now
       - (((int (hour now) * 60 + int (minute now)) * 60 + int (second now)) * 1000
          + int (millisecond now))
       + (9 * 60 + 30) * 60 * 1000"

text \<open>
  The breakout bonus \<open>Math.min(20, breakoutStrength * 40)\<close> with
  \<open>breakoutStrength = distance / rangeSize\<close>, for a positive distance: Infinity, hence 20, when
  the range is 0.
\<close>

definition breakoutBonus :: "real \<Rightarrow> real \<Rightarrow> real" where
  "breakoutBonus distance width =
     (if width = 0 then 20 else min 20 (distance / width * 40))"

definition generateORBPrediction ::
    "DateTime \<Rightarrow> string \<Rightarrow> string \<Rightarrow> Candle list \<Rightarrow> real \<Rightarrow> Prediction option" where
  "generateORBPrediction now tk cat candleList currentPrice =
    (let marketOpen = getMarketOpenMs now;
         orbEnd = marketOpen + 30 * 60 * 1000
     in if epochMs now < orbEnd then None
        else
          (let orbCandles = filter (\<lambda>c. timestamp c \<ge> marketOpen \<and> timestamp c < orbEnd) candleList
           in if length orbCandles < 5 then None
              else
                (case calculateORB orbCandles of
                   None \<Rightarrow> None
                 | Some orbLevels \<Rightarrow>
                    (let (dir, conf) =
                           (if currentPrice > orbHigh orbLevels
                            then (Some CALL,
                                  55 + breakoutBonus (currentPrice - orbHigh orbLevels)
                                         (rangeSize orbLevels))
                            else if currentPrice < orbLow orbLevels
                            then (Some PUT,
                                  55 + breakoutBonus (orbLow orbLevels - currentPrice)
                                         (rangeSize orbLevels))
                            else (None, 55))
                     in case dir of
                          None \<Rightarrow> None
                        | Some d \<Rightarrow>
                           if conf < 60 then None
                           else Some (planFields (fromORB orbLevels d)
                                  \<lparr>ticker = tk, category = cat, direction = d,
                                   strike = selectStrike currentPrice d 1,
                                   entryPrice = Some currentPrice, confidence = conf,
                                   session = getSession now ALL_HOLIDAYS ALL_HALF_DAYS,
                                   engine = ORB_MOMENTUM, entryTrigger = None, stopLoss = None,
                                   takeProfit = None, riskRewardRatio = None\<rparr>)))))"

section \<open>Scheduler (server/aurora/daemon.ts)\<close>

record TradierQuote =
  symbol :: string
  lastPrice :: real

record TradierOption =
  optionStrike :: real
  optionType :: string
  optionBid :: real
  optionAsk :: real
  optionGreeks :: "Greeks option"

text \<open>
  What the outside world gives one run of \<open>runPredictionCycle\<close>: the clock when the cycle
  starts and when an engine reads it, the vendor's answers, the parameter rows that
  \<open>getActiveGenes\<close> finds, and the database clock that stamps \<open>generated_at\<close>.
\<close>

record TickEnv =
  clock :: DateTime
  engineClock :: DateTime
  fetchedQuotes :: "TradierQuote list"
  intradayCandles :: "string \<Rightarrow> Candle list"
  expirationDates :: "string \<Rightarrow> string list"
  optionChain :: "string \<Rightarrow> string \<Rightarrow> TradierOption list"
  parameterRows :: "ParameterRow list"
  insertTime :: string

record DaemonState =
  database :: Database
  genesCache :: GenesCache

datatype DayType = HOLIDAY | WEEKEND | HALF_DAY | NORMAL

definition getDayType :: "DateTime \<Rightarrow> DayType" where
  "getDayType now =
    (if dateStr now \<in> ALL_HOLIDAYS then HOLIDAY
     else if weekday now > 5 then WEEKEND
     else if dateStr now \<in> ALL_HALF_DAYS then HALF_DAY
     else NORMAL)"

definition DAILY_0DTE :: "string list" where "DAILY_0DTE = [''SPY'']"

definition FRIDAY_0DTE :: "string list" where "FRIDAY_0DTE = []"

definition getActiveTickers :: "DateTime \<Rightarrow> string list" where
  "getActiveTickers now = (if weekday now = 5 then DAILY_0DTE @ FRIDAY_0DTE else DAILY_0DTE)"

definition getCategory :: "string \<Rightarrow> string" where
  "getCategory tk =
    (if tk = ''SPY'' then ''SPY_DAILY''
     else if tk = ''SPX'' then ''SPX_DAILY''
     else if tk = ''NVDA'' then ''NVDA_FRIDAY''
     else if tk = ''TSLA'' then ''TSLA_FRIDAY''
     else if tk = ''XOM'' then ''XOM_FRIDAY''
     else if tk = ''AAPL'' then ''AAPL_FRIDAY''
     else if tk = ''ASML'' then ''ASML_FRIDAY''
     else ''SPY_DAILY'')"

text \<open>\<open>storeCandles\<close> and \<open>storePrediction\<close> (reservoir.ts, parallax.ts).\<close>

definition storeCandles :: "string \<Rightarrow> Candle list \<Rightarrow> Database \<Rightarrow> Database" where
  "storeCandles tk candleList db =
    (if length candleList = 0 then db
     else db\<lparr>candles := candles db @
            map (\<lambda>c. \<lparr>timestamp = timestamp c, openPrice = openPrice c, high = high c,
                       low = low c, close = close c, volume = volume c, candleTicker = tk\<rparr>)
              candleList\<rparr>)"

definition storePrediction :: "Prediction \<Rightarrow> string \<Rightarrow> Database \<Rightarrow> Database" where
  "storePrediction prediction stamp db =
     db\<lparr>predictions := predictions db @
            [\<lparr>ticker = ticker prediction, category = category prediction,
              direction = direction prediction, strike = strike prediction,
              entryPrice = entryPrice prediction, confidence = confidence prediction,
              session = session prediction, engine = engine prediction,
              entryTrigger = entryTrigger prediction, stopLoss = stopLoss prediction,
              takeProfit = takeProfit prediction, riskRewardRatio = riskRewardRatio prediction,
              rowId = nextPredictionId db, status = ''ACTIVE'', generatedAt = Some stamp\<rparr>],
        nextPredictionId := nextPredictionId db + 1\<rparr>"

text \<open>\<open>updatePredictionStatus(predictionId, status, actualPnl?)\<close> (parallax.ts).\<close>

definition updatePredictionStatus :: "nat \<Rightarrow> string \<Rightarrow> real option \<Rightarrow> Database \<Rightarrow> Database" where
  "updatePredictionStatus pid st pnl db =
    (let db1 = setStatus pid st db
     in case pnl of
          None \<Rightarrow> db1
        | Some v \<Rightarrow> insertOutcome pid (Some v) (if v > 0 then ''WIN'' else ''LOSS'') None db1)"

definition fetch0DTEExpiration :: "TickEnv \<Rightarrow> string \<Rightarrow> string option" where
  "fetch0DTEExpiration env tk =
    (let expirations = expirationDates env tk;
         today = dateStr (clock env)
     in if today \<in> set expirations then Some today
        else if length expirations > 0 then Some (expirations ! 0) else None)"

definition directionLower :: "PredictionDirection \<Rightarrow> string" where
  "directionLower d = (if d = CALL then ''call'' else ''put'')"

definition orElse :: "real option \<Rightarrow> real \<Rightarrow> real" where
  "orElse v d = (case v of Some x \<Rightarrow> x | None \<Rightarrow> d)"

text \<open>The overlay of the contract trade plan on a prediction about to be stored.\<close>

definition overlayContract :: "real \<Rightarrow> TradierOption list \<Rightarrow> Prediction \<Rightarrow> Prediction" where
  "overlayContract currentPrice chain prediction =
    (case find (\<lambda>c. optionStrike c = strike prediction
                    \<and> optionType c = directionLower (direction prediction)) chain of
       None \<Rightarrow> prediction
     | Some contract \<Rightarrow>
        if optionBid contract > 0
        then
          (case optionGreeks contract of
             Some g \<Rightarrow>
               (let currentOptionAsk = getMidPrice (optionBid contract) (optionAsk contract);
                    stockLevels = \<lparr>entry = orElse (entryTrigger prediction) currentPrice,
                                   stop = orElse (stopLoss prediction) currentPrice,
                                   target = orElse (takeProfit prediction) currentPrice\<rparr>;
                    greeks = \<lparr>delta = \<bar>delta g\<bar>, gamma = gamma g\<rparr>;
                    optionTradePlan = calculate currentOptionAsk currentPrice stockLevels greeks
                in prediction\<lparr>entryPrice := Some (contractEntry optionTradePlan),
                               entryTrigger := Some (contractEntry optionTradePlan),
                               stopLoss := Some (contractStop optionTradePlan),
                               takeProfit := Some (contractTarget optionTradePlan),
                               riskRewardRatio := Some (riskReward optionTradePlan)\<rparr>)
           | None \<Rightarrow>
               (let premium = getMidPrice (optionBid contract) (optionAsk contract)
                in prediction\<lparr>entryPrice := Some premium,
                               entryTrigger := Some premium,
                               stopLoss := Some (toFixed2 (premium * 0.5)),
                               takeProfit := Some (toFixed2 (premium * 2.0)),
                               riskRewardRatio := Some 2.0\<rparr>))
        else prediction)"

text \<open>The engine chosen for one ticker, with the candles it stores on the way.\<close>

definition engineStep ::
    "TickEnv \<Rightarrow> MarketSession \<Rightarrow> bool \<Rightarrow> bool \<Rightarrow> string \<Rightarrow> real \<Rightarrow> DaemonState
      \<Rightarrow> Prediction option \<times> DaemonState" where
  "engineStep env sess trading preMarket tk currentPrice st =
    (if preMarket
     then (generateBlackScholesPrediction (engineClock env) tk (getCategory tk) currentPrice 0.25
             NEUTRAL, st)
     else if trading
     then
       (let candleList = intradayCandles env tk;
            st1 = st\<lparr>database := storeCandles tk (lastN 10 candleList) (database st)\<rparr>
        in if length candleList \<ge> 30
           then
             (let (weights, cache1) =
                    getWeightsFromPraxis (epochMs (engineClock env)) (parameterRows env)
                      (genesCache st1) tk;
                  tpoPrediction = generateTPOMITPrediction weights (engineClock env) tk
                                    (getCategory tk) candleList currentPrice;
                  prediction =
                    (if tpoPrediction = None \<and> sess = OPENING_RANGE \<and> length candleList \<ge> 30
                     then generateORBPrediction (engineClock env) tk (getCategory tk)
                            (take 30 candleList) currentPrice
                     else tpoPrediction)
              in (prediction, st1\<lparr>genesCache := cache1\<rparr>))
           else (None, st1))
     else (None, st))"

text \<open>The body of the loop over the active tickers.\<close>

definition cycleTicker ::
    "TickEnv \<Rightarrow> MarketSession \<Rightarrow> bool \<Rightarrow> bool \<Rightarrow> string \<Rightarrow> DaemonState \<Rightarrow> DaemonState" where
  "cycleTicker env sess trading preMarket tk st =
    (case find (\<lambda>q. symbol q = tk) (fetchedQuotes env) of
       None \<Rightarrow> st
     | Some quote \<Rightarrow>
        if lastPrice quote \<le> 0 then st
        else
          (let currentPrice = lastPrice quote;
               (prediction, st1) = engineStep env sess trading preMarket tk currentPrice st
           in case prediction of
                None \<Rightarrow> st1
              | Some pred \<Rightarrow>
                 if confidence pred \<ge> 60
                 then
                   (let existingPredictions = getActivePredictions (database st1) tk;
                        hasSameDirection =
                          list_ex (\<lambda>p. direction p = direction pred \<and> engine p = engine pred)
                            existingPredictions
                    in if \<not> hasSameDirection
                       then
                         (let stored =
                                (case fetch0DTEExpiration env tk of
                                   None \<Rightarrow> pred
                                 | Some expiration \<Rightarrow>
                                     overlayContract currentPrice (optionChain env tk expiration) pred)
                          in st1\<lparr>database := storePrediction stored (insertTime env) (database st1)\<rparr>)
                       else st1)
                 else st1))"

text \<open>
  \<open>runPredictionCycle()\<close>.  The quotes table written by \<open>storeQuote\<close> is not part of
  \<open>Database\<close>; vendor and database calls do not throw in the model.
\<close>

definition runPredictionCycle :: "TickEnv \<Rightarrow> DaemonState \<Rightarrow> DaemonState" where
  "runPredictionCycle env st =
    (let dayType = getDayType (clock env)
     in if dayType = HOLIDAY \<or> dayType = WEEKEND then st
        else
          (let sess = getSession (clock env) ALL_HOLIDAYS ALL_HALF_DAYS;
               trading = isTradingHours (clock env) ALL_HOLIDAYS ALL_HALF_DAYS;
               preMarket = isPreMarket (clock env) ALL_HOLIDAYS
           in if \<not> trading \<and> \<not> preMarket then st
              else
                (let activeTickers = getActiveTickers (clock env)
                 in if length (fetchedQuotes env) = 0 then st
                    else fold (cycleTicker env sess trading preMarket) activeTickers st)))"

text \<open>\<open>expireOldPredictions()\<close>, the sweep the daemon runs at start.\<close>

definition expireOldOne :: "string \<Rightarrow> PredictionRow \<Rightarrow> Database \<Rightarrow> Database" where
  "expireOldOne today prediction db =
    (case generatedAt prediction of
       None \<Rightarrow> db
     | Some stamp \<Rightarrow>
         if take 10 stamp < today
         then updatePredictionStatus (rowId prediction) ''EXPIRED'' None db
         else db)"

definition expireOldPredictions :: "string \<Rightarrow> Database \<Rightarrow> Database" where
  "expireOldPredictions today db = fold (expireOldOne today) (activeRows db) db"

text \<open>
  The states of the daemon when its runs do not overlap: it starts on an empty store and
  then runs prediction cycles, the grader and the expiry sweeps, one at a time and each to
  its end, each on any answers of the outside world, with no call that throws.  The timer
  of \<open>startAuroraDaemon\<close> does not wait for a run to return; runs that overlap are the
  relation \<open>running\<close> of the last section.
\<close>

inductive reachable :: "DaemonState \<Rightarrow> bool" where
  start: "reachable \<lparr>database = emptyDatabase, genesCache = Map.empty\<rparr>"
| tick: "reachable st \<Longrightarrow> reachable (runPredictionCycle env st)"
| grade: "reachable st \<Longrightarrow>
     reachable (st\<lparr>database := fst (gradeOpenTrades nowIso (database st))\<rparr>)"
| expireOld: "reachable st \<Longrightarrow>
     reachable (st\<lparr>database := expireOldPredictions today (database st)\<rparr>)"
| sweep: "reachable st \<Longrightarrow>
     reachable (st\<lparr>database := fst (expireStale today (database st))\<rparr>)"

section \<open>Invariants of the store\<close>

definition predictionKey :: "PredictionRow \<Rightarrow> string \<times> PredictionDirection \<times> PredictionEngine" where
  "predictionKey p = (ticker p, direction p, engine p)"

definition outcomeCount :: "Database \<Rightarrow> nat \<Rightarrow> nat" where
  "outcomeCount db pid = length (filter (\<lambda>oc. predictionId oc = pid) (outcomes db))"

text \<open>Serial ids: distinct, below the next id, and no outcome refers to an id not yet given.\<close>

definition idsFresh :: "Database \<Rightarrow> bool" where
  "idsFresh db \<longleftrightarrow>
     distinct (map rowId (predictions db))
     \<and> (\<forall>p \<in> set (predictions db). rowId p < nextPredictionId db)
     \<and> (\<forall>oc \<in> set (outcomes db). predictionId oc < nextPredictionId db)"

definition outcomeCoupled :: "Database \<Rightarrow> bool" where
  "outcomeCoupled db \<longleftrightarrow>
     (\<forall>p \<in> set (predictions db).
        outcomeCount db (rowId p) = (if status p = ''CLOSED'' then 1 else 0))"

definition activeUnique :: "Database \<Rightarrow> bool" where
  "activeUnique db \<longleftrightarrow> distinct (map predictionKey (activeRows db))"

definition noBlackScholes :: "Database \<Rightarrow> bool" where
  "noBlackScholes db \<longleftrightarrow> (\<forall>p \<in> set (predictions db). engine p \<noteq> BLACK_SCHOLES)"

definition storeInvariant :: "Database \<Rightarrow> bool" where
  "storeInvariant db \<longleftrightarrow> idsFresh db \<and> outcomeCoupled db \<and> activeUnique db \<and> noBlackScholes db"

lemma storeInvariant_emptyDatabase: "storeInvariant emptyDatabase"
  by (simp add: storeInvariant_def idsFresh_def outcomeCoupled_def activeUnique_def
      noBlackScholes_def activeRows_def emptyDatabase_def)

lemma storeInvariant_cong:
  assumes "predictions db' = predictions db" "outcomes db' = outcomes db"
    "nextPredictionId db' = nextPredictionId db"
  shows "storeInvariant db' = storeInvariant db"
  using assms
  by (simp add: storeInvariant_def idsFresh_def outcomeCoupled_def activeUnique_def
      noBlackScholes_def activeRows_def outcomeCount_def)

subsection \<open>Storing a prediction\<close>

lemma storeInvariant_storePrediction:
  assumes inv: "storeInvariant db"
    and eng: "engine prediction \<noteq> BLACK_SCHOLES"
    and new: "(ticker prediction, direction prediction, engine prediction)
                \<notin> set (map predictionKey (activeRows db))"
  shows "storeInvariant (storePrediction prediction stamp db)"
proof -
  let ?db' = "storePrediction prediction stamp db"
  from inv have ids: "idsFresh db" and cpl: "outcomeCoupled db" and uniq: "activeUnique db"
    and nbs: "noBlackScholes db"
    by (simp_all add: storeInvariant_def)
  have nocount: "outcomeCount db (nextPredictionId db) = 0"
    using ids by (auto simp: idsFresh_def outcomeCount_def filter_empty_conv)
  have 1: "idsFresh ?db'"
    using ids by (auto simp: idsFresh_def storePrediction_def less_Suc_eq)
  have 2: "outcomeCoupled ?db'"
    using cpl nocount
    by (auto simp: outcomeCoupled_def storePrediction_def outcomeCount_def)
  have 3: "activeUnique ?db'"
    using uniq new
    by (simp add: activeUnique_def storePrediction_def activeRows_def predictionKey_def)
  have 4: "noBlackScholes ?db'"
    using nbs eng by (auto simp: noBlackScholes_def storePrediction_def)
  show ?thesis using 1 2 3 4 by (simp add: storeInvariant_def)
qed

subsection \<open>Leaving the ACTIVE status\<close>

lemma activeRows_setStatus:
  assumes "st \<noteq> ''ACTIVE''"
  shows "activeRows (setStatus pid st db) = filter (\<lambda>r. rowId r \<noteq> pid) (activeRows db)"
proof -
  have "filter (\<lambda>p. status p = ''ACTIVE'')
          (map (\<lambda>p. if rowId p = pid then p\<lparr>status := st\<rparr> else p) ps)
        = filter (\<lambda>r. rowId r \<noteq> pid) (filter (\<lambda>p. status p = ''ACTIVE'') ps)" for ps
    using assms by (induction ps) auto
  then show ?thesis by (simp add: activeRows_def setStatus_def)
qed

lemma activeUnique_setStatus:
  assumes "activeUnique db" "st \<noteq> ''ACTIVE''"
  shows "activeUnique (setStatus pid st db)"
  using assms by (simp add: activeUnique_def activeRows_setStatus distinct_map_filter)

lemma rowId_setStatus: "map rowId (predictions (setStatus pid st db)) = map rowId (predictions db)"
  by (simp add: setStatus_def comp_def if_distrib [of rowId] cong: if_cong)

lemma unique_row:
  assumes "distinct (map rowId ps)" "p \<in> set ps" "r \<in> set ps" "rowId r = rowId p"
  shows "r = p"
  using assms by (meson distinct_map inj_onD)

lemma idsFresh_alt:
  "idsFresh db \<longleftrightarrow>
     distinct (map rowId (predictions db))
     \<and> (\<forall>i \<in> set (map rowId (predictions db)). i < nextPredictionId db)
     \<and> (\<forall>oc \<in> set (outcomes db). predictionId oc < nextPredictionId db)"
  by (simp add: idsFresh_def)

lemma idsFresh_setStatus: "idsFresh db \<Longrightarrow> idsFresh (setStatus pid st db)"
  unfolding idsFresh_alt rowId_setStatus by (simp add: setStatus_def)

lemma idsFresh_insertOutcome:
  "idsFresh db \<Longrightarrow> pid < nextPredictionId db \<Longrightarrow> idsFresh (insertOutcome pid pnl res stamp db)"
  by (auto simp: idsFresh_def insertOutcome_def)

lemma storeInvariant_close:
  assumes inv: "storeInvariant db" and p: "p \<in> set (predictions db)"
    and act: "status p = ''ACTIVE''"
  shows "storeInvariant (setStatus (rowId p) ''CLOSED'' (insertOutcome (rowId p) pnl res stamp db))"
proof -
  let ?pid = "rowId p"
  let ?db1 = "insertOutcome ?pid pnl res stamp db"
  let ?db' = "setStatus ?pid ''CLOSED'' ?db1"
  from inv have ids: "idsFresh db" and cpl: "outcomeCoupled db" and uniq: "activeUnique db"
    and nbs: "noBlackScholes db"
    by (simp_all add: storeInvariant_def)
  have dist: "distinct (map rowId (predictions db))" using ids by (simp add: idsFresh_def)
  have preds: "predictions ?db1 = predictions db" "nextPredictionId ?db1 = nextPredictionId db"
    by (simp_all add: insertOutcome_def)
  have 1: "idsFresh ?db'"
  proof -
    have "?pid < nextPredictionId db" using ids p by (simp add: idsFresh_def)
    then show ?thesis using ids by (intro idsFresh_setStatus idsFresh_insertOutcome)
  qed
  have 2: "outcomeCoupled ?db'"
    unfolding outcomeCoupled_def
  proof
    fix r' assume "r' \<in> set (predictions ?db')"
    then obtain r where r: "r \<in> set (predictions db)"
      and r': "r' = (if rowId r = ?pid then r\<lparr>status := ''CLOSED''\<rparr> else r)"
      by (auto simp: setStatus_def insertOutcome_def)
    have cnt: "outcomeCount ?db' (rowId r) = outcomeCount db (rowId r) + (if rowId r = ?pid then 1 else 0)"
      by (simp add: outcomeCount_def setStatus_def insertOutcome_def)
    have old: "outcomeCount db (rowId r) = (if status r = ''CLOSED'' then 1 else 0)"
      using cpl r by (simp add: outcomeCoupled_def)
    show "outcomeCount ?db' (rowId r') = (if status r' = ''CLOSED'' then 1 else 0)"
    proof (cases "rowId r = ?pid")
      case True
      then have "r = p" using unique_row [OF dist p r] by simp
      then show ?thesis using r' cnt old act by simp
    next
      case False
      then show ?thesis using r' cnt old by simp
    qed
  qed
  have 3: "activeUnique ?db'"
  proof -
    have "activeUnique ?db1"
      using uniq by (simp add: activeUnique_def activeRows_def preds)
    then show ?thesis by (rule activeUnique_setStatus) simp
  qed
  have 4: "noBlackScholes ?db'"
    using nbs by (auto simp: noBlackScholes_def setStatus_def insertOutcome_def)
  show ?thesis using 1 2 3 4 by (simp add: storeInvariant_def)
qed

lemma storeInvariant_expire:
  assumes inv: "storeInvariant db" and p: "p \<in> set (predictions db)"
    and act: "status p = ''ACTIVE''"
  shows "storeInvariant (setStatus (rowId p) ''EXPIRED'' db)"
proof -
  let ?pid = "rowId p"
  let ?db' = "setStatus ?pid ''EXPIRED'' db"
  from inv have ids: "idsFresh db" and cpl: "outcomeCoupled db" and uniq: "activeUnique db"
    and nbs: "noBlackScholes db"
    by (simp_all add: storeInvariant_def)
  have dist: "distinct (map rowId (predictions db))" using ids by (simp add: idsFresh_def)
  have 1: "idsFresh ?db'"
    using ids by (rule idsFresh_setStatus)
  have 2: "outcomeCoupled ?db'"
    unfolding outcomeCoupled_def
  proof
    fix r' assume "r' \<in> set (predictions ?db')"
    then obtain r where r: "r \<in> set (predictions db)"
      and r': "r' = (if rowId r = ?pid then r\<lparr>status := ''EXPIRED''\<rparr> else r)"
      by (auto simp: setStatus_def)
    have cnt: "outcomeCount ?db' (rowId r) = outcomeCount db (rowId r)"
      by (simp add: outcomeCount_def setStatus_def)
    have old: "outcomeCount db (rowId r) = (if status r = ''CLOSED'' then 1 else 0)"
      using cpl r by (simp add: outcomeCoupled_def)
    show "outcomeCount ?db' (rowId r') = (if status r' = ''CLOSED'' then 1 else 0)"
    proof (cases "rowId r = ?pid")
      case True
      then have "r = p" using unique_row [OF dist p r] by simp
      then show ?thesis using r' cnt old act by simp
    next
      case False
      then show ?thesis using r' cnt old by simp
    qed
  qed
  have 3: "activeUnique ?db'"
    using uniq by (rule activeUnique_setStatus) simp
  have 4: "noBlackScholes ?db'"
    using nbs by (auto simp: noBlackScholes_def setStatus_def)
  show ?thesis using 1 2 3 4 by (simp add: storeInvariant_def)
qed

subsection \<open>The loops over the ACTIVE rows read at the start of a sweep\<close>

text \<open>
  The rows still to be visited have distinct ids, and each is still ACTIVE in the store.
\<close>

definition pending :: "PredictionRow list \<Rightarrow> Database \<Rightarrow> bool" where
  "pending ps db \<longleftrightarrow>
     distinct (map rowId ps)
     \<and> (\<forall>q \<in> set ps. \<exists>p \<in> set (predictions db). rowId p = rowId q \<and> status p = ''ACTIVE'')"

lemma pending_activeRows: "idsFresh db \<Longrightarrow> pending (activeRows db) db"
  by (auto simp: pending_def idsFresh_def activeRows_def distinct_map_filter)

lemma pending_Nil: "pending [] db"
  by (simp add: pending_def)

lemma pending_head:
  "pending (q # ps) db \<Longrightarrow> \<exists>p \<in> set (predictions db). rowId p = rowId q \<and> status p = ''ACTIVE''"
  by (simp add: pending_def)

lemma pending_tail_same: "pending (q # ps) db \<Longrightarrow> pending ps db"
  by (simp add: pending_def)

lemma pending_tail_setStatus:
  assumes "pending (q # ps) db" "predictions db1 = predictions db"
  shows "pending ps (setStatus (rowId q) st db1)"
  unfolding pending_def
proof (intro conjI ballI)
  show "distinct (map rowId ps)" using assms(1) by (simp add: pending_def)
next
  fix r assume r: "r \<in> set ps"
  then have "rowId r \<in> rowId ` set ps" by (rule imageI)
  moreover have "rowId q \<notin> rowId ` set ps" using assms(1) by (simp add: pending_def)
  ultimately have ne: "rowId r \<noteq> rowId q" by metis
  from r assms(1) obtain p where p: "p \<in> set (predictions db)" "rowId p = rowId r"
    "status p = ''ACTIVE''"
    by (auto simp: pending_def)
  then have "p \<in> set (predictions (setStatus (rowId q) st db1))"
    using ne assms(2) by (auto simp: setStatus_def intro!: image_eqI [where x = p])
  then show "\<exists>p \<in> set (predictions (setStatus (rowId q) st db1)).
      rowId p = rowId r \<and> status p = ''ACTIVE''"
    using p by blast
qed

lemma gradeOne_cases:
  "fst (gradeOne stamp pred (db, res)) = db
   \<or> (\<exists>pnl r. fst (gradeOne stamp pred (db, res))
        = setStatus (rowId pred) ''CLOSED'' (insertOutcome (rowId pred) pnl r (Some stamp) db))"
  by (auto simp: gradeOne_def Let_def split: option.splits)

lemma gradeOne_step:
  assumes "storeInvariant db" "pending (pred # ps) db"
  shows "storeInvariant (fst (gradeOne stamp pred (db, res)))
     \<and> pending ps (fst (gradeOne stamp pred (db, res)))"
proof -
  from pending_head [OF assms(2)] obtain p where p: "p \<in> set (predictions db)"
    "rowId p = rowId pred" "status p = ''ACTIVE''" by blast
  from gradeOne_cases [of stamp pred db res] show ?thesis
  proof
    assume "fst (gradeOne stamp pred (db, res)) = db"
    then show ?thesis using assms pending_tail_same by simp
  next
    assume "\<exists>pnl r. fst (gradeOne stamp pred (db, res))
        = setStatus (rowId pred) ''CLOSED'' (insertOutcome (rowId pred) pnl r (Some stamp) db)"
    then obtain pnl r where e: "fst (gradeOne stamp pred (db, res))
        = setStatus (rowId pred) ''CLOSED'' (insertOutcome (rowId pred) pnl r (Some stamp) db)"
      by blast
    have "storeInvariant (setStatus (rowId p) ''CLOSED'' (insertOutcome (rowId p) pnl r (Some stamp) db))"
      using assms(1) p(1,3) by (rule storeInvariant_close)
    moreover have "pending ps (setStatus (rowId pred) ''CLOSED''
        (insertOutcome (rowId pred) pnl r (Some stamp) db))"
      using assms(2) by (rule pending_tail_setStatus) (simp add: insertOutcome_def)
    ultimately show ?thesis using e p(2) by simp
  qed
qed

lemma fold_gradeOne_invariant:
  "storeInvariant db \<Longrightarrow> pending ps db \<Longrightarrow>
   storeInvariant (fst (fold (gradeOne stamp) ps (db, res)))"
proof (induction ps arbitrary: db res)
  case Nil
  then show ?case by simp
next
  case (Cons pred ps)
  obtain db' res' where g: "gradeOne stamp pred (db, res) = (db', res')"
    by (cases "gradeOne stamp pred (db, res)")
  from gradeOne_step [OF Cons.prems, of stamp res] g
  have "storeInvariant db'" "pending ps db'" by simp_all
  then have "storeInvariant (fst (fold (gradeOne stamp) ps (db', res')))"
    by (rule Cons.IH)
  then show ?case using g by simp
qed

lemma storeInvariant_gradeOpenTrades:
  assumes "storeInvariant db"
  shows "storeInvariant (fst (gradeOpenTrades stamp db))"
proof -
  have "pending (activeRows db) db"
    using assms by (simp add: storeInvariant_def pending_activeRows)
  with assms show ?thesis
    by (simp add: gradeOpenTrades_def Let_def fold_gradeOne_invariant)
qed

lemma expireOne_cases:
  "fst (expireOne today pred (db, n)) = db
   \<or> fst (expireOne today pred (db, n)) = setStatus (rowId pred) ''EXPIRED'' db"
  by (auto simp: expireOne_def Let_def split: option.splits)

lemma expireOldOne_cases:
  "expireOldOne today pred db = db
   \<or> expireOldOne today pred db = setStatus (rowId pred) ''EXPIRED'' db"
  by (auto simp: expireOldOne_def updatePredictionStatus_def Let_def split: option.splits)

lemma expire_step:
  assumes "storeInvariant db" "pending (pred # ps) db"
    and "db' = db \<or> db' = setStatus (rowId pred) ''EXPIRED'' db"
  shows "storeInvariant db' \<and> pending ps db'"
proof -
  from pending_head [OF assms(2)] obtain p where p: "p \<in> set (predictions db)"
    "rowId p = rowId pred" "status p = ''ACTIVE''" by blast
  from assms(3) show ?thesis
  proof
    assume "db' = db"
    then show ?thesis using assms pending_tail_same by simp
  next
    assume e: "db' = setStatus (rowId pred) ''EXPIRED'' db"
    have "storeInvariant (setStatus (rowId p) ''EXPIRED'' db)"
      using assms(1) p(1,3) by (rule storeInvariant_expire)
    moreover have "pending ps (setStatus (rowId pred) ''EXPIRED'' db)"
      using assms(2) by (rule pending_tail_setStatus) simp
    ultimately show ?thesis using e p(2) by simp
  qed
qed

lemma fold_expireOne_invariant:
  "storeInvariant db \<Longrightarrow> pending ps db \<Longrightarrow>
   storeInvariant (fst (fold (expireOne today) ps (db, n)))"
proof (induction ps arbitrary: db n)
  case Nil
  then show ?case by simp
next
  case (Cons pred ps)
  obtain db' n' where g: "expireOne today pred (db, n) = (db', n')"
    by (cases "expireOne today pred (db, n)")
  from expire_step [OF Cons.prems, of db'] expireOne_cases [of today pred db n] g
  have "storeInvariant db'" "pending ps db'" by simp_all
  then have "storeInvariant (fst (fold (expireOne today) ps (db', n')))"
    by (rule Cons.IH)
  then show ?case using g by simp
qed

lemma fold_expireOldOne_invariant:
  "storeInvariant db \<Longrightarrow> pending ps db \<Longrightarrow> storeInvariant (fold (expireOldOne today) ps db)"
proof (induction ps arbitrary: db)
  case Nil
  then show ?case by simp
next
  case (Cons pred ps)
  from expire_step [OF Cons.prems, of "expireOldOne today pred db"]
    expireOldOne_cases [of today pred db]
  have "storeInvariant (expireOldOne today pred db)" "pending ps (expireOldOne today pred db)"
    by simp_all
  then have "storeInvariant (fold (expireOldOne today) ps (expireOldOne today pred db))"
    by (rule Cons.IH)
  then show ?case by simp
qed

lemma storeInvariant_expireStale:
  assumes "storeInvariant db"
  shows "storeInvariant (fst (expireStale today db))"
proof -
  have "pending (activeRows db) db"
    using assms by (simp add: storeInvariant_def pending_activeRows)
  with assms show ?thesis
    by (simp add: expireStale_def fold_expireOne_invariant)
qed

lemma storeInvariant_expireOldPredictions:
  assumes "storeInvariant db"
  shows "storeInvariant (expireOldPredictions today db)"
proof -
  have "pending (activeRows db) db"
    using assms by (simp add: storeInvariant_def pending_activeRows)
  with assms show ?thesis
    by (simp add: expireOldPredictions_def fold_expireOldOne_invariant)
qed

subsection \<open>A prediction cycle\<close>

lemma generatePreMarketPrediction_NEUTRAL:
  "generatePreMarketPrediction tk spotPrice volatility riskFreeRate NEUTRAL = None"
  by (simp add: generatePreMarketPrediction_def Let_def)

lemma generateBlackScholesPrediction_NEUTRAL:
  "generateBlackScholesPrediction now tk cat spotPrice volatility NEUTRAL = None"
  by (simp add: generateBlackScholesPrediction_def generatePreMarketPrediction_NEUTRAL)

lemma planFields_key:
  "ticker (planFields plan p) = ticker p" "direction (planFields plan p) = direction p"
  "engine (planFields plan p) = engine p" "confidence (planFields plan p) = confidence p"
  by (simp_all add: planFields_def)

lemma generateTPOMITPrediction_key:
  assumes "generateTPOMITPrediction weights now tk cat candleList currentPrice = Some pred"
  shows "ticker pred = tk \<and> engine pred = TPO_MIT \<and> 60 \<le> confidence pred"
  using assms
  by (auto simp: generateTPOMITPrediction_def Let_def planFields_key
      split: if_splits option.splits)

lemma generateORBPrediction_key:
  assumes "generateORBPrediction now tk cat candleList currentPrice = Some pred"
  shows "ticker pred = tk \<and> engine pred = ORB_MOMENTUM \<and> 60 \<le> confidence pred"
  using assms
  by (auto simp: generateORBPrediction_def Let_def planFields_key
      split: if_splits option.splits)

lemma engineStep_rows:
  "predictions (database (snd (engineStep env sess trading preMarket tk price st)))
     = predictions (database st)"
  "outcomes (database (snd (engineStep env sess trading preMarket tk price st)))
     = outcomes (database st)"
  "nextPredictionId (database (snd (engineStep env sess trading preMarket tk price st)))
     = nextPredictionId (database st)"
  by (simp_all add: engineStep_def Let_def storeCandles_def split_beta)

lemma engineStep_key:
  assumes "fst (engineStep env sess trading preMarket tk price st) = Some pred"
  shows "ticker pred = tk \<and> engine pred \<noteq> BLACK_SCHOLES"
proof (cases preMarket)
  case True
  then show ?thesis
    using assms by (simp add: engineStep_def generateBlackScholesPrediction_NEUTRAL)
next
  case False
  then have "generateTPOMITPrediction
               (fst (getWeightsFromPraxis (epochMs (engineClock env)) (parameterRows env)
                  (genesCache st) tk))
               (engineClock env) tk (getCategory tk) (intradayCandles env tk) price = Some pred
      \<or> generateORBPrediction (engineClock env) tk (getCategory tk)
               (take 30 (intradayCandles env tk)) price = Some pred"
    using assms by (auto simp: engineStep_def Let_def split_beta split: if_splits)
  then show ?thesis
    using generateTPOMITPrediction_key generateORBPrediction_key by fastforce
qed

lemma overlayContract_key:
  "ticker (overlayContract price chain pred) = ticker pred"
  "direction (overlayContract price chain pred) = direction pred"
  "engine (overlayContract price chain pred) = engine pred"
  by (simp_all add: overlayContract_def Let_def split: option.splits)

lemma hasSameDirection_key:
  "list_ex (\<lambda>p. direction p = d \<and> engine p = e) (getActivePredictions db tk)
     \<longleftrightarrow> (tk, d, e) \<in> set (map predictionKey (activeRows db))"
  by (auto simp: list_ex_iff getActivePredictions_def activeRows_def predictionKey_def)

lemma storeInvariant_cycleTicker:
  assumes "storeInvariant (database st)"
  shows "storeInvariant (database (cycleTicker env sess trading preMarket tk st))"
proof (cases "find (\<lambda>q. symbol q = tk) (fetchedQuotes env)")
  case None
  then show ?thesis using assms by (simp add: cycleTicker_def)
next
  case (Some quote)
  show ?thesis
  proof (cases "lastPrice quote \<le> 0")
    case True
    then show ?thesis using assms Some by (simp add: cycleTicker_def)
  next
    case False
    obtain prediction st1 where es:
      "engineStep env sess trading preMarket tk (lastPrice quote) st = (prediction, st1)"
      by (cases "engineStep env sess trading preMarket tk (lastPrice quote) st")
    have rows: "predictions (database st1) = predictions (database st)"
      "outcomes (database st1) = outcomes (database st)"
      "nextPredictionId (database st1) = nextPredictionId (database st)"
      using engineStep_rows [of env sess trading preMarket tk "lastPrice quote" st] es
      by simp_all
    have inv1: "storeInvariant (database st1)"
      using assms storeInvariant_cong [OF rows] by simp
    show ?thesis
    proof (cases prediction)
      case None
      then show ?thesis using inv1 Some False es by (simp add: cycleTicker_def)
    next
      case (Some pred)
      have key: "ticker pred = tk" "engine pred \<noteq> BLACK_SCHOLES"
        using engineStep_key [of env sess trading preMarket tk "lastPrice quote" st pred] es Some
        by simp_all
      define stored where "stored =
        (case fetch0DTEExpiration env tk of
           None \<Rightarrow> pred
         | Some expiration \<Rightarrow>
             overlayContract (lastPrice quote) (optionChain env tk expiration) pred)"
      have skey: "ticker stored = tk" "direction stored = direction pred"
        "engine stored = engine pred"
        using key by (simp_all add: stored_def overlayContract_key split: option.splits)
      have store: "storeInvariant (storePrediction stored (insertTime env) (database st1))"
        if "\<not> list_ex (\<lambda>p. direction p = direction pred \<and> engine p = engine pred)
                 (getActivePredictions (database st1) tk)"
      proof (rule storeInvariant_storePrediction [OF inv1])
        show "engine stored \<noteq> BLACK_SCHOLES" using skey key by simp
        show "(ticker stored, direction stored, engine stored)
            \<notin> set (map predictionKey (activeRows (database st1)))"
          using that skey by (simp only: hasSameDirection_key) simp
      qed
      have "cycleTicker env sess trading preMarket tk st = st1
          \<or> (\<not> list_ex (\<lambda>p. direction p = direction pred \<and> engine p = engine pred)
                 (getActivePredictions (database st1) tk)
             \<and> cycleTicker env sess trading preMarket tk st
               = st1\<lparr>database := storePrediction stored (insertTime env) (database st1)\<rparr>)"
        using \<open>find (\<lambda>q. symbol q = tk) (fetchedQuotes env) = Some quote\<close> False es Some
        by (simp add: cycleTicker_def Let_def stored_def)
      then show ?thesis using inv1 store by auto
    qed
  qed
qed

lemma storeInvariant_fold_cycleTicker:
  "storeInvariant (database st) \<Longrightarrow>
   storeInvariant (database (fold (cycleTicker env sess trading preMarket) tks st))"
  by (induction tks arbitrary: st) (simp_all add: storeInvariant_cycleTicker)

lemma storeInvariant_runPredictionCycle:
  "storeInvariant (database st) \<Longrightarrow> storeInvariant (database (runPredictionCycle env st))"
  by (simp add: runPredictionCycle_def Let_def storeInvariant_fold_cycleTicker)

lemma reachable_storeInvariant: "reachable st \<Longrightarrow> storeInvariant (database st)"
proof (induction rule: reachable.induct)
  case start
  show ?case by (simp add: storeInvariant_emptyDatabase)
next
  case (tick st env)
  then show ?case by (simp add: storeInvariant_runPredictionCycle)
next
  case (grade st nowIso)
  then show ?case by (simp add: storeInvariant_gradeOpenTrades)
next
  case (expireOld st today)
  then show ?case by (simp add: storeInvariant_expireOldPredictions)
next
  case (sweep st today)
  then show ?case by (simp add: storeInvariant_expireStale)
qed

section \<open>A concrete window\<close>

lemma flat_fields:
  "timestamp (flat t) = t" "openPrice (flat t) = 100" "high (flat t) = 100"
  "low (flat t) = 100" "close (flat t) = 100" "volume (flat t) = 1"
  by (simp_all add: flat_def)

lemma tickLoop_flat: "tickLoop (1 / 4) 1 100 100 (m, v) = (addVolume 100 1 m, v + 1)"
  by (simp add: tickLoop_go tickLoop_done roundToTick_def mathRound_def)

lemma candleLoop_flat:
  "candleLoop (1 / 4) (flat t # cs) (m, v) = candleLoop (1 / 4) cs (addVolume 100 1 m, v + 1)"
  by (simp add: flat_fields Let_def roundToTick_def mathRound_def tickLoop_flat)

lemma candleLoop_flatWindow: "candleLoop (1 / 4) flatWindow ([], 0) = ([(100, 30)], 30)"
  unfolding flatWindow_def by (simp add: candleLoop_flat del: candleLoop.simps(2))

lemma buildTPOProfile_flatWindow:
  "buildTPOProfile flatWindow 0.25 0.70 =
     Some \<lparr>poc = 100, vah = 100, val = 100, impulse = NEUTRAL, profileData = [(100, 30)],
           totalVolume = 30, priceRangeHigh = 100, priceRangeLow = 100\<rparr>"
proof -
  obtain first others where fw: "flatWindow = first # others"
    and f: "first = flat 1764167400000"
    and o: "fold max (map high others) 100 = 100" "fold min (map low others) 100 = 100"
    and l: "close (last flatWindow) = 100"
    unfolding flatWindow_def by (simp add: flat_fields)
  have c: "candleLoop (1 / 4) (first # others) ([], 0) = ([(100, 30)], 30)"
    using candleLoop_flatWindow fw by simp
  show ?thesis
    unfolding buildTPOProfile_def fw
    apply (simp add: c del: candleLoop.simps(2))
    apply (simp add: f flat_fields o l [unfolded fw] volumeAt_def valueAreaLoop_done
        roundToTick_def mathRound_def Let_def)
    done
qed


lemma calculateRSI_flatWindow: "calculateRSI (map close flatWindow) 14 = Some 100"
  unfolding flatWindow_def
  by (simp add: flat_fields calculateRSI_def wilder_def accumulate_def Let_def)

lemma vwapLoop_flatWindow: "vwapLoop flatWindow = (3000, 30)"
  unfolding flatWindow_def by (simp add: vwapLoop_def flat_fields)

lemma calculateVWAP_flatWindow: "calculateVWAP flatWindow = Some 100"
  by (simp add: calculateVWAP_def vwapLoop_flatWindow) (simp add: flatWindow_def)

lemma calculateATR_flatWindow: "calculateATR flatWindow 14 = Some 0"
  unfolding flatWindow_def
  by (simp add: flat_fields calculateATR_def wilder_def accumulate_def Let_def)

lemma technicals_flatWindow:
  "rsi14 (computeTechnicalSnapshot flatWindow) = Some 100"
  "vwap (computeTechnicalSnapshot flatWindow) = Some 100"
  "atr (computeTechnicalSnapshot flatWindow) = Some 0"
  by (simp_all add: computeTechnicalSnapshot_def Let_def calculateRSI_flatWindow
      calculateVWAP_flatWindow calculateATR_flatWindow)

lemma calculateInitialBalance_flatWindow:
  "\<exists>b. calculateInitialBalance flatWindow 60 = Some b \<and> ibHigh b = 100 \<and> ibLow b = 100"
  unfolding flatWindow_def
  by (simp add: calculateInitialBalance_def flat_fields Let_def)

lemma computeOrderFlowSnapshot_flatWindow:
  "\<exists>f. computeOrderFlowSnapshot flatWindow 0 = Some f \<and> \<not> cvdDivergence f"
proof -
  have d: "calculateDelta (flat t) = 0" for t
    by (simp add: calculateDelta_def flat_fields Let_def)
  have a: "accumulate (map calculateDelta flatWindow) = 0"
    unfolding flatWindow_def by (simp add: accumulate_def d)
  have v: "calculateAnchoredVWAP flatWindow 0 = Some 100"
    by (simp add: calculateAnchoredVWAP_def vwapLoop_flatWindow) (simp add: flatWindow_def)
  have l: "close (last flatWindow) = 100" "close (hd flatWindow) = 100" "length flatWindow = 30"
    unfolding flatWindow_def by (simp_all add: flat_fields)
  show ?thesis
    by (simp add: computeOrderFlowSnapshot_def Let_def a v l)
qed


text \<open>Wednesday 26 November 2025, a regular trading day, at \<open>h:m\<close> Eastern Standard Time.\<close>

definition tradingDayAt :: "nat \<Rightarrow> nat \<Rightarrow> DateTime" where
  "tradingDayAt h m = \<lparr>dateStr = ''2025-11-26'', weekday = 3, hour = h, minute = m, second = 0,
     millisecond = 0, epochMs = 1764133200000 + (int h * 60 + int m) * 60000\<rparr>"

definition flatPut :: Prediction where
  "flatPut = \<lparr>ticker = ''SPY'', category = ''SPY_DAILY'', direction = PUT, strike = 100,
     entryPrice = Some 101, confidence = 66, session = MORNING, engine = TPO_MIT,
     entryTrigger = Some 101, stopLoss = Some 100, takeProfit = Some 100,
     riskRewardRatio = Some 0\<rparr>"

lemma getSession_tradingDayAt_1005:
  "getSession (tradingDayAt 10 5) ALL_HOLIDAYS ALL_HALF_DAYS = MORNING"
  by (simp add: getSession_def tradingDayAt_def ALL_HOLIDAYS_def ALL_HALF_DAYS_def
      HOLIDAYS_2024_def HOLIDAYS_2025_def HOLIDAYS_2026_def HALF_DAYS_2024_def
      HALF_DAYS_2025_def HALF_DAYS_2026_def Let_def)

lemma generateTPOMITPrediction_flatWindow:
  "generateTPOMITPrediction (weightsOfGenes (DEFAULT_GENES\<lparr>minConfidence := mc\<rparr>))
     (tradingDayAt 10 5) ''SPY'' ''SPY_DAILY'' flatWindow 101 = Some flatPut"
proof -
  obtain b where b: "calculateInitialBalance flatWindow 60 = Some b" "ibHigh b = 100" "ibLow b = 100"
    using calculateInitialBalance_flatWindow by blast
  obtain f where f: "computeOrderFlowSnapshot flatWindow 0 = Some f" "\<not> cvdDivergence f"
    using computeOrderFlowSnapshot_flatWindow by blast
  have n: "length flatWindow = 30" unfolding flatWindow_def by simp
  have conf: "calculateConfidence
      (scoreComponents 101 SHORT OVERBOUGHT (computeTechnicalSnapshot flatWindow) (Some b) (Some f))
      (weightsOfGenes (DEFAULT_GENES\<lparr>minConfidence := mc\<rparr>)) = 66"
    by (simp add: calculateConfidence_def scoreComponents_def addComponent_def weightsOfGenes_def
        DEFAULT_GENES_def technicals_flatWindow b f)
  show ?thesis
    unfolding generateTPOMITPrediction_def buildTPOProfile_flatWindow
    by (simp add: n Let_def b f technicals_flatWindow
        getTPOSignal_def getRSISignal_def conf liveDirection_def fromTPO_def mkPlan_def
        planFields_def selectStrike_def mathRound_def getSession_tradingDayAt_1005 flatPut_def)
qed

section \<open>Live scoring and backtest scoring\<close>

text \<open>
  The confidence and the direction that \<open>generateTPOMITPrediction\<close> computes on a window
  before it decides to emit: the lines from \<open>buildTPOProfile\<close> to the direction rule.
\<close>

definition liveScore ::
    "ConfidenceWeights \<Rightarrow> Candle list \<Rightarrow> real \<Rightarrow> (real \<times> PredictionDirection option) option" where
  "liveScore weights candleList currentPrice =
    (case buildTPOProfile candleList 0.25 0.70 of
       None \<Rightarrow> None
     | Some tpoProfile \<Rightarrow>
        (let technicals = computeTechnicalSnapshot candleList;
             ib = calculateInitialBalance candleList 60;
             orderFlow = computeOrderFlowSnapshot candleList 0;
             tpoBias = getTPOSignal currentPrice tpoProfile;
             rsiSignal = (case rsi14 technicals of
                            Some r \<Rightarrow> getRSISignal r | None \<Rightarrow> NEUTRAL_RSI);
             confidenceComponents =
               scoreComponents currentPrice tpoBias rsiSignal technicals ib orderFlow
         in Some (calculateConfidence confidenceComponents weights,
                  liveDirection tpoBias rsiSignal)))"

text \<open>
  The scoring of one 30-candle window in \<open>runHistoricalBacktest\<close> (praxis/backtest.ts): the
  body of the loop from \<open>const currentPrice\<close> to the test
  \<open>if (confidence < genes.minConfidence || !direction) continue\<close>.
\<close>

definition backtestScore ::
    "StrategyGenes \<Rightarrow> Candle list \<Rightarrow> (real \<times> PredictionDirection option) option" where
  "backtestScore genes candleData =
    (let currentPrice = close (last candleData)
     in case buildTPOProfile candleData 0.25 0.70 of
          None \<Rightarrow> None
        | Some tpoProfile \<Rightarrow>
           (let technicals = computeTechnicalSnapshot candleData;
                tpoBias = getTPOSignal currentPrice tpoProfile;
                rsiSignal = (case rsi14 technicals of
                               Some r \<Rightarrow> getRSISignal r | None \<Rightarrow> NEUTRAL_RSI);
                (confidence1, direction1) =
                  (if tpoBias = LONG then (50 + 20 * tpoWeight genes, Some CALL)
                   else if tpoBias = SHORT then (50 + 20 * tpoWeight genes, Some PUT)
                   else (50, None));
                (confidence2, direction2) =
                  (if rsiSignal = OVERSOLD
                   then (confidence1 + 20 * rsiWeight genes,
                         (case direction1 of None \<Rightarrow> Some CALL | Some d \<Rightarrow> Some d))
                   else if rsiSignal = OVERBOUGHT
                   then (confidence1 + 20 * rsiWeight genes,
                         (case direction1 of None \<Rightarrow> Some PUT | Some d \<Rightarrow> Some d))
                   else (confidence1, direction1))
            in Some (confidence2, direction2)))"

definition backtestTrades :: "StrategyGenes \<Rightarrow> Candle list \<Rightarrow> bool" where
  "backtestTrades genes candleData =
    (case backtestScore genes candleData of
       None \<Rightarrow> False
     | Some (conf, dir) \<Rightarrow> \<not> (conf < minConfidence genes \<or> dir = None))"

lemma generateTPOMITPrediction_liveScore:
  "generateTPOMITPrediction weights now tk cat candleList currentPrice = Some pred \<Longrightarrow>
   liveScore weights candleList currentPrice = Some (confidence pred, Some (direction pred))"
  by (auto simp: generateTPOMITPrediction_def liveScore_def Let_def planFields_key
      split: if_splits option.splits)

lemma generateTPOMITPrediction_emits:
  assumes "30 \<le> length candleList"
    and "liveScore weights candleList currentPrice = Some (conf, Some d)" and "60 \<le> conf"
  shows "\<exists>pred. generateTPOMITPrediction weights now tk cat candleList currentPrice = Some pred
           \<and> confidence pred = conf \<and> direction pred = d"
  using assms
  by (auto simp: generateTPOMITPrediction_def liveScore_def Let_def planFields_key
      split: if_splits option.splits)

lemma generateTPOMITPrediction_silent:
  assumes "liveScore weights candleList currentPrice = None
     \<or> (\<exists>conf dir. liveScore weights candleList currentPrice = Some (conf, dir)
          \<and> (conf < 60 \<or> dir = None))"
  shows "generateTPOMITPrediction weights now tk cat candleList currentPrice = None"
  using assms
  by (auto simp: generateTPOMITPrediction_def liveScore_def Let_def
      split: if_splits option.splits)

text \<open>The direction rules of the two scorers agree; the confidences do not.\<close>

lemma backtest_direction_agrees:
  assumes "backtestScore genes candleData = Some (bc, bd)"
  shows "\<exists>lc. liveScore weights candleData (close (last candleData)) = Some (lc, bd)"
proof -
  obtain prof where p: "buildTPOProfile candleData 0.25 0.70 = Some prof"
    using assms by (auto simp: backtestScore_def Let_def split: option.splits)
  show ?thesis
    using assms p
    by (cases "getTPOSignal (close (last candleData)) prof";
        cases "case rsi14 (computeTechnicalSnapshot candleData) of
                 Some r \<Rightarrow> getRSISignal r | None \<Rightarrow> NEUTRAL_RSI")
      (auto simp: backtestScore_def liveScore_def Let_def liveDirection_def)
qed


lemma weightsOfGenes_minConfidence:
  "weightsOfGenes (g\<lparr>minConfidence := mc\<rparr>) = weightsOfGenes g"
  by (simp add: weightsOfGenes_def)

lemma liveScore_flatWindow:
  "liveScore (weightsOfGenes DEFAULT_GENES) flatWindow (close (last flatWindow)) = Some (51, Some PUT)"
proof -
  obtain b where b: "calculateInitialBalance flatWindow 60 = Some b" "ibHigh b = 100" "ibLow b = 100"
    using calculateInitialBalance_flatWindow by blast
  obtain f where f: "computeOrderFlowSnapshot flatWindow 0 = Some f" "\<not> cvdDivergence f"
    using computeOrderFlowSnapshot_flatWindow by blast
  have l: "close (last flatWindow) = 100" unfolding flatWindow_def by (simp add: flat_fields)
  have conf: "calculateConfidence
      (scoreComponents 100 NEUTRAL_BIAS OVERBOUGHT (computeTechnicalSnapshot flatWindow) (Some b) (Some f))
      (weightsOfGenes DEFAULT_GENES) = 51"
    by (simp add: calculateConfidence_def scoreComponents_def addComponent_def weightsOfGenes_def
        DEFAULT_GENES_def technicals_flatWindow b f)
  show ?thesis
    unfolding liveScore_def buildTPOProfile_flatWindow l
    by (simp add: Let_def b f technicals_flatWindow getTPOSignal_def getRSISignal_def conf
        liveDirection_def)
qed

lemma backtestScore_flatWindow:
  "backtestScore DEFAULT_GENES flatWindow = Some (54, Some PUT)"
proof -
  have l: "close (last flatWindow) = 100" unfolding flatWindow_def by (simp add: flat_fields)
  show ?thesis
    unfolding backtestScore_def buildTPOProfile_flatWindow l
    by (simp add: Let_def technicals_flatWindow getTPOSignal_def getRSISignal_def
        DEFAULT_GENES_def)
qed

text \<open>
  Claim C3, at a concrete window.  On thirty one-minute candles that all trade at 100 with
  volume 1, and the default weights, the backtest scores the window at confidence 54 and
  the live TPO+MIT scoring at confidence 51 (both choose PUT): the backtest adds
  \<open>20 * weight\<close> to a base of 50 for each of the two signals it reads, the live scoring is
  the weighted average of five component scores.
\<close>

theorem backtest_confidence_differs:
  "backtestScore DEFAULT_GENES flatWindow = Some (54, Some PUT)
   \<and> liveScore (weightsOfGenes DEFAULT_GENES) flatWindow (close (last flatWindow))
       = Some (51, Some PUT)
   \<and> length flatWindow = 30"
  using backtestScore_flatWindow liveScore_flatWindow by (simp add: flatWindow_def)


lemma backtest_default_never_trades: "\<not> backtestTrades DEFAULT_GENES candleData"
proof (cases "backtestScore DEFAULT_GENES candleData")
  case None
  then show ?thesis by (simp add: backtestTrades_def)
next
  case (Some r)
  then have "fst r < 60"
    by (auto simp: backtestScore_def Let_def DEFAULT_GENES_def split: option.splits if_splits)
  then show ?thesis using Some by (simp add: backtestTrades_def DEFAULT_GENES_def split_beta)
qed

section \<open>Bounds on the confidence of an emitted prediction\<close>

definition weightsNonnegative :: "ConfidenceWeights \<Rightarrow> bool" where
  "weightsNonnegative w \<longleftrightarrow>
     0 \<le> wTpo w \<and> 0 \<le> wRsi w \<and> 0 \<le> wIb w \<and> 0 \<le> wCvd w \<and> 0 \<le> wVwap w"

definition unitScore :: "real option \<Rightarrow> bool" where
  "unitScore c \<longleftrightarrow> (case c of None \<Rightarrow> True | Some v \<Rightarrow> 0 \<le> v \<and> v \<le> 1)"

lemma addComponent_bounds:
  assumes "unitScore c" "0 \<le> w" "0 \<le> fst acc" "fst acc \<le> snd acc"
  shows "0 \<le> fst (addComponent c w acc) \<and> fst (addComponent c w acc) \<le> snd (addComponent c w acc)"
proof (cases c)
  case None
  then show ?thesis using assms by (simp add: addComponent_def split_beta)
next
  case (Some v)
  then have v: "0 \<le> v" "v \<le> 1" using assms(1) by (simp_all add: unitScore_def)
  have "0 \<le> v * w" using v assms(2) by simp
  moreover have "v * w \<le> w" using v assms(2) by (simp add: mult_left_le_one_le)
  ultimately show ?thesis using Some assms(3,4) by (simp add: addComponent_def split_beta)
qed

lemma calculateConfidence_bounds:
  assumes w: "weightsNonnegative weights"
    and c: "unitScore (cTpo cs)" "unitScore (cRsi cs)" "unitScore (cIb cs)"
      "unitScore (cCvd cs)" "unitScore (cVwap cs)"
  shows "0 \<le> calculateConfidence cs weights \<and> calculateConfidence cs weights \<le> 100"
proof -
  define a1 where "a1 = addComponent (cTpo cs) (wTpo weights) (0, 0)"
  define a2 where "a2 = addComponent (cRsi cs) (wRsi weights) a1"
  define a3 where "a3 = addComponent (cIb cs) (wIb weights) a2"
  define a4 where "a4 = addComponent (cCvd cs) (wCvd weights) a3"
  define a5 where "a5 = addComponent (cVwap cs) (wVwap weights) a4"
  have w': "0 \<le> wTpo weights" "0 \<le> wRsi weights" "0 \<le> wIb weights" "0 \<le> wCvd weights"
    "0 \<le> wVwap weights"
    using w by (simp_all add: weightsNonnegative_def)
  have b1: "0 \<le> fst a1 \<and> fst a1 \<le> snd a1"
    unfolding a1_def by (rule addComponent_bounds [OF c(1) w'(1)]) simp_all
  have b2: "0 \<le> fst a2 \<and> fst a2 \<le> snd a2"
    unfolding a2_def using b1 by (intro addComponent_bounds [OF c(2) w'(2)]) simp_all
  have b3: "0 \<le> fst a3 \<and> fst a3 \<le> snd a3"
    unfolding a3_def using b2 by (intro addComponent_bounds [OF c(3) w'(3)]) simp_all
  have b4: "0 \<le> fst a4 \<and> fst a4 \<le> snd a4"
    unfolding a4_def using b3 by (intro addComponent_bounds [OF c(4) w'(4)]) simp_all
  have b5: "0 \<le> fst a5 \<and> fst a5 \<le> snd a5"
    unfolding a5_def using b4 by (intro addComponent_bounds [OF c(5) w'(5)]) simp_all
  have e: "calculateConfidence cs weights = (if snd a5 > 0 then fst a5 / snd a5 * 100 else 50)"
    by (simp add: calculateConfidence_def a1_def a2_def a3_def a4_def a5_def split_beta)
  show ?thesis
  proof (cases "snd a5 > 0")
    case True
    define q where "q = fst a5 / snd a5"
    have "0 \<le> q" "q \<le> 1"
      unfolding q_def using True b5 by simp_all
    moreover have "calculateConfidence cs weights = q * 100"
      unfolding q_def using e True by simp
    ultimately show ?thesis by simp
  next
    case False
    then show ?thesis using e by simp
  qed
qed

lemma scoreComponents_unit:
  "unitScore (cTpo (scoreComponents price tb rs tech ib fl))"
  "unitScore (cRsi (scoreComponents price tb rs tech ib fl))"
  "unitScore (cIb (scoreComponents price tb rs tech ib fl))"
  "unitScore (cCvd (scoreComponents price tb rs tech ib fl))"
  "unitScore (cVwap (scoreComponents price tb rs tech ib fl))"
  by (simp_all add: scoreComponents_def unitScore_def split: option.splits)

lemma liveScore_bounds:
  assumes "weightsNonnegative weights" "liveScore weights candleList price = Some (conf, dir)"
  shows "0 \<le> conf \<and> conf \<le> 100"
  using assms(2) calculateConfidence_bounds [OF assms(1) scoreComponents_unit]
  by (auto simp: liveScore_def Let_def split: option.splits)

lemma generatePreMarketPrediction_confidence:
  assumes "generatePreMarketPrediction tk spot vol rate bias = Some pm"
  shows "55 \<le> pmConfidence pm \<and> pmConfidence pm \<le> 70"
  using assms
  by (auto simp: generatePreMarketPrediction_def Let_def split: if_splits)

lemma generateBlackScholesPrediction_confidence:
  assumes "generateBlackScholesPrediction now tk cat spot vol bias = Some pred"
  shows "60 \<le> confidence pred \<and> confidence pred \<le> 70 \<and> engine pred = BLACK_SCHOLES"
proof -
  from assms obtain pm where pm: "generatePreMarketPrediction tk spot vol 0.05 bias = Some pm"
    and c: "\<not> pmConfidence pm < 60" "confidence pred = pmConfidence pm" "engine pred = BLACK_SCHOLES"
    by (auto simp: generateBlackScholesPrediction_def Let_def planFields_key
        split: option.splits if_splits)
  then show ?thesis using generatePreMarketPrediction_confidence [OF pm] by simp
qed

lemma breakoutBonus_le: "55 + breakoutBonus gap width \<le> 75"
  by (simp add: breakoutBonus_def)

lemma generateORBPrediction_confidence:
  assumes "generateORBPrediction now tk cat candleList price = Some pred"
  shows "60 \<le> confidence pred \<and> confidence pred \<le> 75"
proof -
  have "confidence pred \<le> 75"
    using assms
    by (auto simp: generateORBPrediction_def Let_def planFields_key breakoutBonus_le
        split: option.splits if_splits)
  then show ?thesis
    using generateORBPrediction_key [OF assms] by simp
qed

section \<open>Concrete runs\<close>

lemma tradingDayAt_1005:
  "dateStr (tradingDayAt 10 5) \<notin> ALL_HOLIDAYS" "dateStr (tradingDayAt 10 5) \<notin> ALL_HALF_DAYS"
  "weekday (tradingDayAt 10 5) = 3" "hour (tradingDayAt 10 5) = 10" "minute (tradingDayAt 10 5) = 5"
  "epochMs (tradingDayAt 10 5) = 1764169500000"
  "getMarketOpenMs (tradingDayAt 10 5) = 1764167400000"
  by (simp_all add: tradingDayAt_def getMarketOpenMs_def ALL_HOLIDAYS_def ALL_HALF_DAYS_def
      HOLIDAYS_2024_def HOLIDAYS_2025_def HOLIDAYS_2026_def HALF_DAYS_2024_def
      HALF_DAYS_2025_def HALF_DAYS_2026_def)

definition flatCall :: Prediction where
  "flatCall = \<lparr>ticker = ''SPY'', category = ''SPY_DAILY'', direction = CALL, strike = 102,
     entryPrice = Some 101, confidence = 75, session = MORNING, engine = ORB_MOMENTUM,
     entryTrigger = Some 100.05, stopLoss = Some 100, takeProfit = Some 100,
     riskRewardRatio = Some (- 1)\<rparr>"

lemma orbLoop_flat:
  "orbLoop (flat t # cs) (Some 100, Some 100) = orbLoop cs (Some 100, Some 100)"
  "orbLoop (flat t # cs) (None, None) = orbLoop cs (Some 100, Some 100)"
  by (simp_all add: flat_fields)

lemma generateORBPrediction_flatWindow:
  "generateORBPrediction (tradingDayAt 10 5) ''SPY'' ''SPY_DAILY'' flatWindow 101 = Some flatCall"
proof -
  have f: "filter (\<lambda>c. 1764167400000 \<le> timestamp c \<and> timestamp c < 1764167400000 + 30 * 60 * 1000)
            flatWindow = flatWindow"
    unfolding flatWindow_def by (simp add: flat_fields)
  have n: "length flatWindow = 30" unfolding flatWindow_def by simp
  have o: "orbLoop flatWindow (None, None) = (Some 100, Some 100)"
    unfolding flatWindow_def by (simp add: orbLoop_flat del: orbLoop.simps(2))
  have c: "calculateORB flatWindow
      = Some \<lparr>orbHigh = 100, orbLow = 100, orbMid = 100, rangeSize = 0, targetBull1 = 100,
          targetBull2 = 100, targetBear1 = 100, targetBear2 = 100, stopLossLong = 100,
          stopLossShort = 100\<rparr>"
    by (simp add: calculateORB_def n o)
  show ?thesis
    unfolding generateORBPrediction_def tradingDayAt_1005 Let_def f
    by (simp add: n c breakoutBonus_def fromORB_def mkPlan_def planFields_def selectStrike_def
        mathRound_def getSession_tradingDayAt_1005 flatCall_def)
qed

lemma generateBlackScholesPrediction_bullish:
  "\<exists>pred. generateBlackScholesPrediction (tradingDayAt 10 5) ''SPY'' ''SPY_DAILY'' 450 0.4 BULLISH
             = Some pred \<and> confidence pred = 70 \<and> direction pred = CALL \<and> strike pred = 452.5"
proof -
  have "\<exists>pm. generatePreMarketPrediction ''SPY'' 450 0.4 0.05 BULLISH = Some pm
      \<and> pmConfidence pm = 70 \<and> pmDirection pm = CALL \<and> pmStrike pm = 452.5"
    by (simp add: generatePreMarketPrediction_def Let_def)
  then obtain pm where pm: "generatePreMarketPrediction ''SPY'' 450 0.4 0.05 BULLISH = Some pm"
    "pmConfidence pm = 70" "pmDirection pm = CALL" "pmStrike pm = 452.5" by blast
  show ?thesis
    unfolding generateBlackScholesPrediction_def pm
    by (simp add: pm Let_def planFields_def)
qed

definition flatEnv :: TickEnv where
  "flatEnv = \<lparr>clock = tradingDayAt 10 5, engineClock = tradingDayAt 10 5,
     fetchedQuotes = [\<lparr>symbol = ''SPY'', lastPrice = 101\<rparr>],
     intradayCandles = (\<lambda>tk. flatWindow), expirationDates = (\<lambda>tk. []),
     optionChain = (\<lambda>tk expiration. []), parameterRows = [],
     insertTime = ''2025-11-26T15:05:00.000Z''\<rparr>"

definition startState :: DaemonState where
  "startState = \<lparr>database = emptyDatabase, genesCache = Map.empty\<rparr>"

definition flatRow :: PredictionRow where
  "flatRow = \<lparr>ticker = ''SPY'', category = ''SPY_DAILY'', direction = PUT, strike = 100,
     entryPrice = Some 101, confidence = 66, session = MORNING, engine = TPO_MIT,
     entryTrigger = Some 101, stopLoss = Some 100, takeProfit = Some 100,
     riskRewardRatio = Some 0, rowId = 1, status = ''ACTIVE'',
     generatedAt = Some ''2025-11-26T15:05:00.000Z''\<rparr>"

lemma flatEnv_gates:
  "getDayType (clock flatEnv) = NORMAL"
  "getSession (clock flatEnv) ALL_HOLIDAYS ALL_HALF_DAYS = MORNING"
  "isTradingHours (clock flatEnv) ALL_HOLIDAYS ALL_HALF_DAYS"
  "\<not> isPreMarket (clock flatEnv) ALL_HOLIDAYS"
  "getActiveTickers (clock flatEnv) = [''SPY'']"
  by (simp_all add: flatEnv_def getDayType_def isTradingHours_def isPreMarket_def
      getActiveTickers_def DAILY_0DTE_def tradingDayAt_1005 getSession_tradingDayAt_1005 Let_def)

lemma getWeightsFromPraxis_default:
  assumes "cache ''SPY'' = None \<or> cache ''SPY'' = Some (DEFAULT_GENES, 1764169500000)"
  shows "fst (getWeightsFromPraxis 1764169500000 [] cache ''SPY'') = weightsOfGenes DEFAULT_GENES"
    and "snd (getWeightsFromPraxis 1764169500000 [] cache ''SPY'') ''SPY''
           = Some (DEFAULT_GENES, 1764169500000)"
  using assms by (auto simp: getWeightsFromPraxis_def getActiveGenes_def Let_def)

lemma engineStep_flatEnv:
  assumes "genesCache st ''SPY'' = None \<or> genesCache st ''SPY'' = Some (DEFAULT_GENES, 1764169500000)"
  shows "fst (engineStep flatEnv MORNING True False ''SPY'' 101 st) = Some flatPut"
    and "database (snd (engineStep flatEnv MORNING True False ''SPY'' 101 st))
           = storeCandles ''SPY'' (lastN 10 flatWindow) (database st)"
    and "genesCache (snd (engineStep flatEnv MORNING True False ''SPY'' 101 st)) ''SPY''
           = Some (DEFAULT_GENES, 1764169500000)"
proof -
  have n: "length flatWindow = 30" unfolding flatWindow_def by simp
  have g: "generateTPOMITPrediction (weightsOfGenes DEFAULT_GENES) (tradingDayAt 10 5) ''SPY''
             ''SPY_DAILY'' flatWindow 101 = Some flatPut"
    using generateTPOMITPrediction_flatWindow [of 60] by (simp add: weightsOfGenes_minConfidence)
  have e: "epochMs (engineClock flatEnv) = 1764169500000" "parameterRows flatEnv = []"
    "intradayCandles flatEnv ''SPY'' = flatWindow" "engineClock flatEnv = tradingDayAt 10 5"
    by (simp_all add: flatEnv_def tradingDayAt_1005)
  show "fst (engineStep flatEnv MORNING True False ''SPY'' 101 st) = Some flatPut"
    using getWeightsFromPraxis_default(1) [of "genesCache st"] assms
    by (simp add: engineStep_def Let_def split_beta e n g getCategory_def tradingDayAt_1005)
  show "database (snd (engineStep flatEnv MORNING True False ''SPY'' 101 st))
           = storeCandles ''SPY'' (lastN 10 flatWindow) (database st)"
    by (simp add: engineStep_def Let_def split_beta e n tradingDayAt_1005)
  show "genesCache (snd (engineStep flatEnv MORNING True False ''SPY'' 101 st)) ''SPY''
           = Some (DEFAULT_GENES, 1764169500000)"
    using getWeightsFromPraxis_default(2) [of "genesCache st"] assms
    by (simp add: engineStep_def Let_def split_beta e n tradingDayAt_1005)
qed

lemma runPredictionCycle_flatEnv:
  assumes "genesCache st ''SPY'' = None \<or> genesCache st ''SPY'' = Some (DEFAULT_GENES, 1764169500000)"
  shows "database (runPredictionCycle flatEnv st)
      = (let db1 = storeCandles ''SPY'' (lastN 10 flatWindow) (database st)
         in if list_ex (\<lambda>p. direction p = PUT \<and> engine p = TPO_MIT) (getActivePredictions db1 ''SPY'')
            then db1
            else storePrediction flatPut ''2025-11-26T15:05:00.000Z'' db1)"
    and "genesCache (runPredictionCycle flatEnv st) ''SPY'' = Some (DEFAULT_GENES, 1764169500000)"
proof -
  obtain prediction st1 where es:
    "engineStep flatEnv MORNING True False ''SPY'' 101 st = (prediction, st1)"
    by (cases "engineStep flatEnv MORNING True False ''SPY'' 101 st")
  have p: "prediction = Some flatPut"
    and d: "database st1 = storeCandles ''SPY'' (lastN 10 flatWindow) (database st)"
    and c: "genesCache st1 ''SPY'' = Some (DEFAULT_GENES, 1764169500000)"
    using engineStep_flatEnv [OF assms] es by simp_all
  have q: "find (\<lambda>q. symbol q = ''SPY'') (fetchedQuotes flatEnv) = Some \<lparr>symbol = ''SPY'', lastPrice = 101\<rparr>"
    "fetchedQuotes flatEnv \<noteq> []" "fetch0DTEExpiration flatEnv ''SPY'' = None"
    "insertTime flatEnv = ''2025-11-26T15:05:00.000Z''"
    by (simp_all add: flatEnv_def fetch0DTEExpiration_def Let_def)
  have r: "runPredictionCycle flatEnv st = cycleTicker flatEnv MORNING True False ''SPY'' st"
    by (simp add: runPredictionCycle_def flatEnv_gates q Let_def)
  have k: "cycleTicker flatEnv MORNING True False ''SPY'' st
      = (if list_ex (\<lambda>p. direction p = PUT \<and> engine p = TPO_MIT)
              (getActivePredictions (database st1) ''SPY'')
         then st1
         else st1\<lparr>database := storePrediction flatPut ''2025-11-26T15:05:00.000Z'' (database st1)\<rparr>)"
    by (simp add: cycleTicker_def q es p Let_def flatPut_def)
  show "database (runPredictionCycle flatEnv st)
      = (let db1 = storeCandles ''SPY'' (lastN 10 flatWindow) (database st)
         in if list_ex (\<lambda>p. direction p = PUT \<and> engine p = TPO_MIT) (getActivePredictions db1 ''SPY'')
            then db1
            else storePrediction flatPut ''2025-11-26T15:05:00.000Z'' db1)"
    by (simp add: r k d Let_def)
  show "genesCache (runPredictionCycle flatEnv st) ''SPY'' = Some (DEFAULT_GENES, 1764169500000)"
    by (simp add: r k c)
qed

subsection \<open>What each operation does to the ACTIVE rows and to the outcome rows\<close>








lemma gradeOne_outcomes:
  "length (outcomes (fst (gradeOne stamp pred (db, res)))) + graded res
     = length (outcomes db) + graded (snd (gradeOne stamp pred (db, res)))"
  by (simp add: gradeOne_def Let_def setStatus_def insertOutcome_def split: option.splits)

lemma fold_gradeOne_outcomes:
  "length (outcomes (fst (fold (gradeOne stamp) ps (db, res)))) + graded res
     = length (outcomes db) + graded (snd (fold (gradeOne stamp) ps (db, res)))"
proof (induction ps arbitrary: db res)
  case Nil
  show ?case by simp
next
  case (Cons pred ps)
  obtain db' res' where g: "gradeOne stamp pred (db, res) = (db', res')"
    by (cases "gradeOne stamp pred (db, res)")
  have "length (outcomes db') + graded res = length (outcomes db) + graded res'"
    using gradeOne_outcomes [of stamp pred db res] g by simp
  moreover have "length (outcomes (fst (fold (gradeOne stamp) ps (db', res')))) + graded res'
     = length (outcomes db') + graded (snd (fold (gradeOne stamp) ps (db', res')))"
    by (rule Cons.IH)
  ultimately show ?case using g by simp
qed

lemma gradeOpenTrades_outcomes:
  "length (outcomes (fst (gradeOpenTrades stamp db)))
     = length (outcomes db) + graded (snd (gradeOpenTrades stamp db))"
  using fold_gradeOne_outcomes [of stamp "activeRows db" db "\<lparr>graded = 0, wins = 0, losses = 0\<rparr>"]
  by (simp add: gradeOpenTrades_def Let_def)

text \<open>One ticker of a cycle adds at most one row, ACTIVE and with a key no ACTIVE row had.\<close>

lemma cycleTicker_rows:
  "predictions (database (cycleTicker env sess trading preMarket tk st)) = predictions (database st)
   \<or> (\<exists>row. predictions (database (cycleTicker env sess trading preMarket tk st))
               = predictions (database st) @ [row]
            \<and> status row = ''ACTIVE''
            \<and> predictionKey row \<notin> set (map predictionKey (activeRows (database st))))"
proof (cases "find (\<lambda>q. symbol q = tk) (fetchedQuotes env)")
  case None
  then show ?thesis by (simp add: cycleTicker_def)
next
  case (Some quote)
  show ?thesis
  proof (cases "lastPrice quote \<le> 0")
    case True
    then show ?thesis using Some by (simp add: cycleTicker_def)
  next
    case False
    obtain prediction st1 where es:
      "engineStep env sess trading preMarket tk (lastPrice quote) st = (prediction, st1)"
      by (cases "engineStep env sess trading preMarket tk (lastPrice quote) st")
    have rows: "predictions (database st1) = predictions (database st)"
      using engineStep_rows(1) [of env sess trading preMarket tk "lastPrice quote" st] es
      by simp
    have act: "activeRows (database st1) = activeRows (database st)"
      using rows by (simp add: activeRows_def)
    show ?thesis
    proof (cases prediction)
      case None
      then show ?thesis using rows Some False es by (simp add: cycleTicker_def)
    next
      case (Some pred)
      have key: "ticker pred = tk"
        using engineStep_key [of env sess trading preMarket tk "lastPrice quote" st pred] es Some
        by simp
      define stored where "stored =
        (case fetch0DTEExpiration env tk of
           None \<Rightarrow> pred
         | Some expiration \<Rightarrow>
             overlayContract (lastPrice quote) (optionChain env tk expiration) pred)"
      have skey: "ticker stored = tk" "direction stored = direction pred"
        "engine stored = engine pred"
        using key by (simp_all add: stored_def overlayContract_key split: option.splits)
      have "cycleTicker env sess trading preMarket tk st = st1
          \<or> (\<not> list_ex (\<lambda>p. direction p = direction pred \<and> engine p = engine pred)
                 (getActivePredictions (database st1) tk)
             \<and> cycleTicker env sess trading preMarket tk st
               = st1\<lparr>database := storePrediction stored (insertTime env) (database st1)\<rparr>)"
        using \<open>find (\<lambda>q. symbol q = tk) (fetchedQuotes env) = Some quote\<close> False es Some
        by (simp add: cycleTicker_def Let_def stored_def)
      then show ?thesis
      proof
        assume "cycleTicker env sess trading preMarket tk st = st1"
        then show ?thesis using rows by simp
      next
        assume a: "\<not> list_ex (\<lambda>p. direction p = direction pred \<and> engine p = engine pred)
                 (getActivePredictions (database st1) tk)
             \<and> cycleTicker env sess trading preMarket tk st
               = st1\<lparr>database := storePrediction stored (insertTime env) (database st1)\<rparr>"
        then have "(tk, direction pred, engine pred)
            \<notin> set (map predictionKey (activeRows (database st)))"
          by (simp only: hasSameDirection_key act) simp
        then show ?thesis
          using a rows skey by (simp add: storePrediction_def predictionKey_def)
      qed
    qed
  qed
qed

lemma runPredictionCycle_preMarket:
  assumes "isPreMarket (clock env) ALL_HOLIDAYS"
  shows "runPredictionCycle env st = st"
proof -
  have c: "cycleTicker env sess trading True tk s = s" for sess trading tk s
    by (simp add: cycleTicker_def engineStep_def generateBlackScholesPrediction_NEUTRAL Let_def
        split: option.splits)
  have f: "fold (cycleTicker env sess trading True) tks s = s" for sess trading tks s
    by (induction tks) (simp_all add: c)
  show ?thesis using assms by (simp add: runPredictionCycle_def Let_def f)
qed

section \<open>A day of the daemon on the flat window\<close>

text \<open>
  Two identical prediction cycles at 10:05, then either the grader in the afternoon or the
  stale sweep of the next day.
\<close>

definition afterOneTick :: DaemonState where
  "afterOneTick = runPredictionCycle flatEnv startState"

definition afterTwoTicks :: DaemonState where
  "afterTwoTicks = runPredictionCycle flatEnv afterOneTick"


definition afterSweep :: DaemonState where
  "afterSweep = afterTwoTicks\<lparr>database := fst (expireStale ''2025-11-27'' (database afterTwoTicks))\<rparr>"

definition preMarketEnv :: TickEnv where
  "preMarketEnv = flatEnv\<lparr>clock := tradingDayAt 8 0\<rparr>"

text \<open>A parameter row that raises the ticker's \<open>minConfidence\<close> gene to 75.\<close>

definition row75 :: ParameterRow where
  "row75 = \<lparr>paramName = ''SPY'', config = DEFAULT_GENES\<lparr>minConfidence := 75\<rparr>,
     isActive = True, lastUpdated = 1764160000000\<rparr>"

lemma storeCandles_rows:
  "predictions (storeCandles tk cs db) = predictions db"
  "outcomes (storeCandles tk cs db) = outcomes db"
  "nextPredictionId (storeCandles tk cs db) = nextPredictionId db"
  "nextOutcomeId (storeCandles tk cs db) = nextOutcomeId db"
  by (simp_all add: storeCandles_def)

lemma storeCandles_flat:
  assumes "\<forall>c \<in> set (candles db). close c = 100 \<and> candleTicker c = ''SPY''"
  shows "\<forall>c \<in> set (candles (storeCandles ''SPY'' (lastN 10 flatWindow) db)).
           close c = 100 \<and> candleTicker c = ''SPY''"
    and "candles (storeCandles ''SPY'' (lastN 10 flatWindow) db) \<noteq> []"
proof -
  have a: "\<forall>c \<in> set flatWindow. close c = 100" unfolding flatWindow_def by (simp add: flat_fields)
  have s: "set (lastN 10 flatWindow) \<subseteq> set flatWindow"
    unfolding lastN_def by (rule set_drop_subset)
  have n: "lastN 10 flatWindow \<noteq> []" unfolding lastN_def flatWindow_def by simp
  show "\<forall>c \<in> set (candles (storeCandles ''SPY'' (lastN 10 flatWindow) db)).
           close c = 100 \<and> candleTicker c = ''SPY''"
    using assms a s by (auto simp: storeCandles_def)
  show "candles (storeCandles ''SPY'' (lastN 10 flatWindow) db) \<noteq> []"
    using n by (simp add: storeCandles_def)
qed


lemma reachable_startState: "reachable startState"
  unfolding startState_def by (rule reachable.start)

lemma reachable_afterOneTick: "reachable afterOneTick"
  unfolding afterOneTick_def by (rule reachable.tick [OF reachable_startState])

lemma reachable_afterTwoTicks: "reachable afterTwoTicks"
  unfolding afterTwoTicks_def by (rule reachable.tick [OF reachable_afterOneTick])


lemma reachable_afterSweep: "reachable afterSweep"
  unfolding afterSweep_def by (rule reachable.sweep [OF reachable_afterTwoTicks])

lemma afterOneTick_rows:
  "predictions (database afterOneTick) = [flatRow]"
  "outcomes (database afterOneTick) = []"
  "nextOutcomeId (database afterOneTick) = 1"
  "genesCache afterOneTick ''SPY'' = Some (DEFAULT_GENES, 1764169500000)"
  "\<forall>c \<in> set (candles (database afterOneTick)). close c = 100 \<and> candleTicker c = ''SPY''"
  "candles (database afterOneTick) \<noteq> []"
proof -
  have c: "genesCache startState ''SPY'' = None
      \<or> genesCache startState ''SPY'' = Some (DEFAULT_GENES, 1764169500000)"
    by (simp add: startState_def)
  have d: "database afterOneTick
      = storePrediction flatPut ''2025-11-26T15:05:00.000Z''
          (storeCandles ''SPY'' (lastN 10 flatWindow) emptyDatabase)"
    unfolding afterOneTick_def runPredictionCycle_flatEnv(1) [OF c]
    by (simp add: Let_def getActivePredictions_def storeCandles_rows startState_def
        emptyDatabase_def)
  have e: "\<forall>c \<in> set (candles emptyDatabase). close c = 100 \<and> candleTicker c = ''SPY''"
    by (simp add: emptyDatabase_def)
  show "predictions (database afterOneTick) = [flatRow]"
    by (simp add: d storePrediction_def storeCandles_rows emptyDatabase_def flatPut_def flatRow_def)
  show "outcomes (database afterOneTick) = []"
    by (simp add: d storePrediction_def storeCandles_rows emptyDatabase_def)
  show "nextOutcomeId (database afterOneTick) = 1"
    by (simp add: d storePrediction_def storeCandles_rows emptyDatabase_def)
  show "genesCache afterOneTick ''SPY'' = Some (DEFAULT_GENES, 1764169500000)"
    unfolding afterOneTick_def by (rule runPredictionCycle_flatEnv(2) [OF c])
  show "\<forall>c \<in> set (candles (database afterOneTick)). close c = 100 \<and> candleTicker c = ''SPY''"
    using storeCandles_flat(1) [OF e] by (simp add: d storePrediction_def)
  show "candles (database afterOneTick) \<noteq> []"
    using storeCandles_flat(2) [OF e] by (simp add: d storePrediction_def)
qed

text \<open>The second cycle computes the same prediction and does not store it.\<close>

lemma afterTwoTicks_rows:
  "predictions (database afterTwoTicks) = [flatRow]"
  "outcomes (database afterTwoTicks) = []"
  "nextOutcomeId (database afterTwoTicks) = 1"
  "\<forall>c \<in> set (candles (database afterTwoTicks)). close c = 100 \<and> candleTicker c = ''SPY''"
  "candles (database afterTwoTicks) \<noteq> []"
  "predictions (database (cycleTicker flatEnv MORNING True False ''SPY'' afterOneTick))
     = predictions (database afterOneTick)"
proof -
  have c: "genesCache afterOneTick ''SPY'' = None
      \<or> genesCache afterOneTick ''SPY'' = Some (DEFAULT_GENES, 1764169500000)"
    by (simp add: afterOneTick_rows)
  have d: "database afterTwoTicks
      = storeCandles ''SPY'' (lastN 10 flatWindow) (database afterOneTick)"
    unfolding afterTwoTicks_def runPredictionCycle_flatEnv(1) [OF c]
    by (simp add: Let_def getActivePredictions_def storeCandles_rows afterOneTick_rows flatRow_def)
  have q: "fetchedQuotes flatEnv \<noteq> []" by (simp add: flatEnv_def)
  have r: "runPredictionCycle flatEnv afterOneTick
      = cycleTicker flatEnv MORNING True False ''SPY'' afterOneTick"
    by (simp add: runPredictionCycle_def flatEnv_gates q Let_def)
  show "predictions (database afterTwoTicks) = [flatRow]"
    by (simp add: d storeCandles_rows afterOneTick_rows)
  then show "predictions (database (cycleTicker flatEnv MORNING True False ''SPY'' afterOneTick))
     = predictions (database afterOneTick)"
    by (simp add: afterTwoTicks_def r afterOneTick_rows)
  show "outcomes (database afterTwoTicks) = []"
    by (simp add: d storeCandles_rows afterOneTick_rows)
  show "nextOutcomeId (database afterTwoTicks) = 1"
    by (simp add: d storeCandles_rows afterOneTick_rows)
  show "\<forall>c \<in> set (candles (database afterTwoTicks)). close c = 100 \<and> candleTicker c = ''SPY''"
    unfolding d by (rule storeCandles_flat(1) [OF afterOneTick_rows(5)])
  show "candles (database afterTwoTicks) \<noteq> []"
    unfolding d by (rule storeCandles_flat(2) [OF afterOneTick_rows(5)])
qed



lemma engineStep_clock:
  "engineStep (env\<lparr>clock := c\<rparr>) sess trading preMarket tk price st
     = engineStep env sess trading preMarket tk price st"
  by (simp add: engineStep_def Let_def split_beta cong: if_cong)

lemma preMarketEnv_gate: "isPreMarket (clock preMarketEnv) ALL_HOLIDAYS"
  by (simp add: preMarketEnv_def isPreMarket_def tradingDayAt_def ALL_HOLIDAYS_def
      HOLIDAYS_2024_def HOLIDAYS_2025_def HOLIDAYS_2026_def Let_def)

lemma engineStep_preMarketEnv:
  "fst (engineStep preMarketEnv MORNING True False ''SPY'' 101 afterTwoTicks) = Some flatPut"
proof -
  have "genesCache afterTwoTicks ''SPY'' = None
      \<or> genesCache afterTwoTicks ''SPY'' = Some (DEFAULT_GENES, 1764169500000)"
    unfolding afterTwoTicks_def
    using runPredictionCycle_flatEnv(2) [of afterOneTick] afterOneTick_rows(4) by simp
  then show ?thesis
    unfolding preMarketEnv_def engineStep_clock by (rule engineStep_flatEnv(1))
qed

section \<open>Store properties of the running daemon\<close>

text \<open>
  Claim C5.  No Black-Scholes prediction is ever produced.  The pre-market engine returns
  nothing for a NEUTRAL bias; the daemon's pre-market branch is exactly a call of the
  Black-Scholes engine with volatility 0.25 and the fixed bias NEUTRAL, so a cycle run
  before the open leaves the state as it was; whatever the engine step of a cycle returns
  is not a BLACK_SCHOLES prediction; and no row of the store of a reachable state has the
  engine BLACK_SCHOLES.
\<close>

theorem blackScholes_never_produced:
  "generateBlackScholesPrediction now tk cat spotPrice volatility NEUTRAL = None
   \<and> fst (engineStep env sess trading True tk price st)
       = generateBlackScholesPrediction (engineClock env) tk (getCategory tk) price 0.25 NEUTRAL
   \<and> (isPreMarket (clock env) ALL_HOLIDAYS \<longrightarrow> runPredictionCycle env st = st)
   \<and> (fst (engineStep env sess trading preMarket tk price st) = Some pred
        \<longrightarrow> engine pred \<noteq> BLACK_SCHOLES)
   \<and> (reachable st \<longrightarrow> (\<forall>p \<in> set (predictions (database st)). engine p \<noteq> BLACK_SCHOLES))"
proof -
  have a: "generateBlackScholesPrediction now tk cat spotPrice volatility NEUTRAL = None"
    by (rule generateBlackScholesPrediction_NEUTRAL)
  have b: "fst (engineStep env sess trading True tk price st)
       = generateBlackScholesPrediction (engineClock env) tk (getCategory tk) price 0.25 NEUTRAL"
    by (simp add: engineStep_def)
  have c: "isPreMarket (clock env) ALL_HOLIDAYS \<longrightarrow> runPredictionCycle env st = st"
    by (simp add: runPredictionCycle_preMarket)
  have d: "fst (engineStep env sess trading preMarket tk price st) = Some pred
        \<longrightarrow> engine pred \<noteq> BLACK_SCHOLES"
    using engineStep_key [of env sess trading preMarket tk price st pred] by simp
  have e: "reachable st \<longrightarrow> (\<forall>p \<in> set (predictions (database st)). engine p \<noteq> BLACK_SCHOLES)"
    using reachable_storeInvariant [of st] by (simp add: storeInvariant_def noBlackScholes_def)
  show ?thesis using a b c d e by blast
qed

theorem blackScholes_never_produced_witness:
  "isPreMarket (clock preMarketEnv) ALL_HOLIDAYS
   \<and> runPredictionCycle preMarketEnv afterTwoTicks = afterTwoTicks
   \<and> fst (engineStep preMarketEnv MORNING True False ''SPY'' 101 afterTwoTicks) = Some flatPut
   \<and> engine flatPut \<noteq> BLACK_SCHOLES
   \<and> reachable afterTwoTicks
   \<and> map engine (predictions (database afterTwoTicks)) = [TPO_MIT]
   \<and> BLACK_SCHOLES \<notin> engine ` set (predictions (database afterTwoTicks))"
proof -
  note t = blackScholes_never_produced [where env = preMarketEnv and st = afterTwoTicks
      and sess = MORNING and trading = True and preMarket = False and tk = "''SPY''"
      and price = 101 and pred = flatPut and now = "tradingDayAt 8 0"
      and cat = "''SPY_DAILY''" and spotPrice = 101 and volatility = "1 / 4"]
  have r: "runPredictionCycle preMarketEnv afterTwoTicks = afterTwoTicks"
    using t preMarketEnv_gate by blast
  have e: "engine flatPut \<noteq> BLACK_SCHOLES"
    using t engineStep_preMarketEnv by blast
  have b: "BLACK_SCHOLES \<notin> engine ` set (predictions (database afterTwoTicks))"
    using t reachable_afterTwoTicks by auto
  have m: "map engine (predictions (database afterTwoTicks)) = [TPO_MIT]"
    by (simp add: afterTwoTicks_rows flatRow_def)
  show ?thesis
    using preMarketEnv_gate r engineStep_preMarketEnv e reachable_afterTwoTicks m b by simp
qed

section \<open>The confidence floor of the live engines\<close>

lemma getWeightsFromPraxis_fresh:
  "fst (getWeightsFromPraxis nowMs rows Map.empty tk) = weightsOfGenes (getActiveGenes rows tk)"
  by (simp add: getWeightsFromPraxis_def Let_def)

lemma getActiveGenes_row75: "getActiveGenes [row75] ''SPY'' = DEFAULT_GENES\<lparr>minConfidence := 75\<rparr>"
  by (simp add: getActiveGenes_def row75_def)

lemma weightsNonnegative_default: "weightsNonnegative (weightsOfGenes DEFAULT_GENES)"
  by (simp add: weightsNonnegative_def weightsOfGenes_def DEFAULT_GENES_def)

text \<open>
  Claim C2, as the engines have it.  An emitted confidence is at least 60, a constant of
  the three engines, and at most 70 (Black-Scholes), 75 (ORB) and, when the component
  weights are non-negative, 100 (TPO+MIT).  The floor is not the ticker's \<open>minConfidence\<close>:
  the TPO+MIT engine emits exactly when the window has at least thirty candles, a direction
  is chosen and the score is at least 60 (so it emits nothing on a shorter window, on a
  score below 60 and when no direction is chosen), and what it receives of the ticker's
  genes, the five component weights, does not depend on \<open>minConfidence\<close>.
\<close>

theorem engines_fixed_floor:
  "(generateTPOMITPrediction weights now tk cat candleList price = Some p1
       \<longrightarrow> 60 \<le> confidence p1 \<and> (weightsNonnegative weights \<longrightarrow> confidence p1 \<le> 100))
   \<and> (generateORBPrediction now tk cat candleList price = Some p2
       \<longrightarrow> 60 \<le> confidence p2 \<and> confidence p2 \<le> 75)
   \<and> (generateBlackScholesPrediction now tk cat spot vol bias = Some p3
       \<longrightarrow> 60 \<le> confidence p3 \<and> confidence p3 \<le> 70)
   \<and> (30 \<le> length candleList \<and> liveScore weights candleList price = Some (conf, Some d)
        \<and> 60 \<le> conf
       \<longrightarrow> (\<exists>pred. generateTPOMITPrediction weights now tk cat candleList price = Some pred
             \<and> confidence pred = conf \<and> direction pred = d))
   \<and> (liveScore weights candleList price = None
        \<or> (\<exists>c2 d2. liveScore weights candleList price = Some (c2, d2) \<and> (c2 < 60 \<or> d2 = None))
       \<longrightarrow> generateTPOMITPrediction weights now tk cat candleList price = None)
   \<and> (length candleList < 30
       \<longrightarrow> generateTPOMITPrediction weights now tk cat candleList price = None)
   \<and> ((\<exists>pred. generateTPOMITPrediction weights now tk cat candleList price = Some pred)
        \<longleftrightarrow> 30 \<le> length candleList
            \<and> (\<exists>c d. liveScore weights candleList price = Some (c, Some d) \<and> 60 \<le> c))
   \<and> fst (getWeightsFromPraxis nowMs rows Map.empty tk) = weightsOfGenes (getActiveGenes rows tk)
   \<and> weightsOfGenes (genes\<lparr>minConfidence := mc\<rparr>) = weightsOfGenes genes"
proof -
  have a: "generateTPOMITPrediction weights now tk cat candleList price = Some p1
       \<longrightarrow> 60 \<le> confidence p1 \<and> (weightsNonnegative weights \<longrightarrow> confidence p1 \<le> 100)"
  proof
    assume g: "generateTPOMITPrediction weights now tk cat candleList price = Some p1"
    have l: "liveScore weights candleList price = Some (confidence p1, Some (direction p1))"
      by (rule generateTPOMITPrediction_liveScore [OF g])
    have "weightsNonnegative weights \<longrightarrow> confidence p1 \<le> 100"
      using liveScore_bounds [of weights candleList price "confidence p1" "Some (direction p1)"] l
      by simp
    then show "60 \<le> confidence p1 \<and> (weightsNonnegative weights \<longrightarrow> confidence p1 \<le> 100)"
      using generateTPOMITPrediction_key [OF g] by simp
  qed
  have b: "generateORBPrediction now tk cat candleList price = Some p2
       \<longrightarrow> 60 \<le> confidence p2 \<and> confidence p2 \<le> 75"
    using generateORBPrediction_confidence [of now tk cat candleList price p2] by simp
  have c: "generateBlackScholesPrediction now tk cat spot vol bias = Some p3
       \<longrightarrow> 60 \<le> confidence p3 \<and> confidence p3 \<le> 70"
    using generateBlackScholesPrediction_confidence [of now tk cat spot vol bias p3] by simp
  have d: "30 \<le> length candleList \<and> liveScore weights candleList price = Some (conf, Some d)
        \<and> 60 \<le> conf
       \<longrightarrow> (\<exists>pred. generateTPOMITPrediction weights now tk cat candleList price = Some pred
             \<and> confidence pred = conf \<and> direction pred = d)"
    using generateTPOMITPrediction_emits [of candleList weights price conf d now tk cat] by simp
  have s: "liveScore weights candleList price = None
        \<or> (\<exists>c2 d2. liveScore weights candleList price = Some (c2, d2) \<and> (c2 < 60 \<or> d2 = None))
       \<longrightarrow> generateTPOMITPrediction weights now tk cat candleList price = None"
    using generateTPOMITPrediction_silent [of weights candleList price now tk cat] by blast
  have n: "length candleList < 30
       \<longrightarrow> generateTPOMITPrediction weights now tk cat candleList price = None"
    by (simp add: generateTPOMITPrediction_def)
  have x: "(\<exists>pred. generateTPOMITPrediction weights now tk cat candleList price = Some pred)
        \<longleftrightarrow> 30 \<le> length candleList
            \<and> (\<exists>c d. liveScore weights candleList price = Some (c, Some d) \<and> 60 \<le> c)"
  proof
    assume "\<exists>pred. generateTPOMITPrediction weights now tk cat candleList price = Some pred"
    then obtain pred where
      g: "generateTPOMITPrediction weights now tk cat candleList price = Some pred" by blast
    have "30 \<le> length candleList" using g n by (cases "length candleList < 30") simp_all
    moreover have "liveScore weights candleList price
        = Some (confidence pred, Some (direction pred))"
      by (rule generateTPOMITPrediction_liveScore [OF g])
    moreover have "60 \<le> confidence pred" using generateTPOMITPrediction_key [OF g] by simp
    ultimately show "30 \<le> length candleList
        \<and> (\<exists>c d. liveScore weights candleList price = Some (c, Some d) \<and> 60 \<le> c)" by blast
  next
    assume "30 \<le> length candleList
        \<and> (\<exists>c d. liveScore weights candleList price = Some (c, Some d) \<and> 60 \<le> c)"
    then obtain c d where "30 \<le> length candleList"
      "liveScore weights candleList price = Some (c, Some d)" "60 \<le> c" by blast
    then show "\<exists>pred. generateTPOMITPrediction weights now tk cat candleList price = Some pred"
      using generateTPOMITPrediction_emits [of candleList weights price c d now tk cat] by blast
  qed
  have e: "fst (getWeightsFromPraxis nowMs rows Map.empty tk)
      = weightsOfGenes (getActiveGenes rows tk)"
    by (rule getWeightsFromPraxis_fresh)
  have f: "weightsOfGenes (genes\<lparr>minConfidence := mc\<rparr>) = weightsOfGenes genes"
    by (rule weightsOfGenes_minConfidence)
  show ?thesis using a b c d s n x e f by blast
qed

theorem engines_fixed_floor_witness:
  "generateTPOMITPrediction (weightsOfGenes DEFAULT_GENES) (tradingDayAt 10 5) ''SPY''
      ''SPY_DAILY'' flatWindow 101 = Some flatPut
   \<and> weightsNonnegative (weightsOfGenes DEFAULT_GENES)
   \<and> 60 \<le> confidence flatPut \<and> confidence flatPut \<le> 100
   \<and> generateORBPrediction (tradingDayAt 10 5) ''SPY'' ''SPY_DAILY'' flatWindow 101 = Some flatCall
   \<and> 60 \<le> confidence flatCall \<and> confidence flatCall \<le> 75
   \<and> (\<exists>p3. generateBlackScholesPrediction (tradingDayAt 10 5) ''SPY'' ''SPY_DAILY'' 450 0.4 BULLISH
              = Some p3 \<and> 60 \<le> confidence p3 \<and> confidence p3 \<le> 70)
   \<and> 30 \<le> length flatWindow
   \<and> liveScore (weightsOfGenes DEFAULT_GENES) flatWindow 101 = Some (66, Some PUT)
   \<and> liveScore (weightsOfGenes DEFAULT_GENES) flatWindow 100 = Some (51, Some PUT)
   \<and> generateTPOMITPrediction (weightsOfGenes DEFAULT_GENES) (tradingDayAt 10 5) ''SPY''
        ''SPY_DAILY'' flatWindow 100 = None
   \<and> length (take 29 flatWindow) < 30
   \<and> generateTPOMITPrediction (weightsOfGenes DEFAULT_GENES) (tradingDayAt 10 5) ''SPY''
        ''SPY_DAILY'' (take 29 flatWindow) 101 = None"
proof -
  obtain p3 where p3: "generateBlackScholesPrediction (tradingDayAt 10 5) ''SPY'' ''SPY_DAILY''
      450 0.4 BULLISH = Some p3"
    using generateBlackScholesPrediction_bullish by blast
  note t = engines_fixed_floor [where weights = "weightsOfGenes DEFAULT_GENES"
      and now = "tradingDayAt 10 5" and tk = "''SPY''" and cat = "''SPY_DAILY''"
      and candleList = flatWindow and price = 101 and ?p1.0 = flatPut and ?p2.0 = flatCall
      and ?p3.0 = p3 and spot = 450 and vol = "0.4" and bias = BULLISH and conf = 66 and d = PUT
      and nowMs = 1764169500000 and rows = "[row75]" and genes = DEFAULT_GENES and mc = 75]
  have g: "generateTPOMITPrediction (weightsOfGenes DEFAULT_GENES) (tradingDayAt 10 5) ''SPY''
      ''SPY_DAILY'' flatWindow 101 = Some flatPut"
    using generateTPOMITPrediction_flatWindow [of 60] by (simp add: weightsOfGenes_minConfidence)
  have o: "generateORBPrediction (tradingDayAt 10 5) ''SPY'' ''SPY_DAILY'' flatWindow 101
      = Some flatCall"
    by (rule generateORBPrediction_flatWindow)
  have n: "30 \<le> length flatWindow" unfolding flatWindow_def by simp
  have l: "liveScore (weightsOfGenes DEFAULT_GENES) flatWindow 101 = Some (66, Some PUT)"
    using generateTPOMITPrediction_liveScore [OF g] by (simp add: flatPut_def)
  have a: "60 \<le> confidence flatPut \<and> confidence flatPut \<le> 100"
    using t g weightsNonnegative_default by blast
  have b: "60 \<le> confidence flatCall \<and> confidence flatCall \<le> 75"
    using t o by blast
  have c: "60 \<le> confidence p3 \<and> confidence p3 \<le> 70"
    using t p3 by blast
  have l2: "liveScore (weightsOfGenes DEFAULT_GENES) flatWindow 100 = Some (51, Some PUT)"
    using liveScore_flatWindow unfolding flatWindow_def by (simp add: flat_fields)
  have q: "generateTPOMITPrediction (weightsOfGenes DEFAULT_GENES) (tradingDayAt 10 5) ''SPY''
        ''SPY_DAILY'' flatWindow 100 = None"
    using engines_fixed_floor [where weights = "weightsOfGenes DEFAULT_GENES"
      and now = "tradingDayAt 10 5" and tk = "''SPY''" and cat = "''SPY_DAILY''"
      and candleList = flatWindow and price = 100 and ?p1.0 = flatPut and ?p2.0 = flatCall
      and ?p3.0 = p3 and spot = 450 and vol = "0.4" and bias = BULLISH and conf = 66 and d = PUT
      and nowMs = 1764169500000 and rows = "[row75]" and genes = DEFAULT_GENES and mc = 75] l2
    by simp
  have k: "length (take 29 flatWindow) < 30" by simp
  have u: "generateTPOMITPrediction (weightsOfGenes DEFAULT_GENES) (tradingDayAt 10 5) ''SPY''
        ''SPY_DAILY'' (take 29 flatWindow) 101 = None"
    using engines_fixed_floor [where weights = "weightsOfGenes DEFAULT_GENES"
      and now = "tradingDayAt 10 5" and tk = "''SPY''" and cat = "''SPY_DAILY''"
      and candleList = "take 29 flatWindow" and price = 101 and ?p1.0 = flatPut
      and ?p2.0 = flatCall and ?p3.0 = p3 and spot = 450 and vol = "0.4" and bias = BULLISH
      and conf = 66 and d = PUT and nowMs = 1764169500000 and rows = "[row75]"
      and genes = DEFAULT_GENES and mc = 75] k
    by blast
  show ?thesis
    using g weightsNonnegative_default a o b p3 c n l l2 q k u by blast
qed

text \<open>
  The ticker's active genes ask for a confidence of at least 75; the engine, given the
  weights of those genes, emits a prediction of confidence 66.
\<close>

theorem minConfidence_not_consulted_counterexample:
  "minConfidence (getActiveGenes [row75] ''SPY'') = 75
   \<and> generateTPOMITPrediction
       (fst (getWeightsFromPraxis 1764169500000 [row75] Map.empty ''SPY''))
       (tradingDayAt 10 5) ''SPY'' ''SPY_DAILY'' flatWindow 101 = Some flatPut
   \<and> confidence flatPut = 66
   \<and> confidence flatPut < minConfidence (getActiveGenes [row75] ''SPY'')"
proof -
  have g: "generateTPOMITPrediction
       (fst (getWeightsFromPraxis 1764169500000 [row75] Map.empty ''SPY''))
       (tradingDayAt 10 5) ''SPY'' ''SPY_DAILY'' flatWindow 101 = Some flatPut"
    unfolding getWeightsFromPraxis_fresh getActiveGenes_row75
    by (rule generateTPOMITPrediction_flatWindow)
  show ?thesis
    using g by (simp add: getActiveGenes_row75 flatPut_def)
qed

section \<open>Overlapping runs\<close>

text \<open>
  \<open>startAuroraDaemon\<close> starts \<open>runPredictionCycle()\<close> from its timer without waiting for it,
  and the timer fires whether or not the run before has returned; between the awaited
  calls of one run the others proceed.  The runs are split here at the awaits between
  their reads and writes of the predictions and the outcomes.  A cycle reads the ACTIVE
  predictions of a ticker (\<open>getActivePredictions\<close>), then awaits the expiration dates and
  the option chain, then inserts (\<open>storePrediction\<close>).  The grader reads the ACTIVE
  predictions and then, for each, inserts the outcome and after that updates the status.
  A sweep reads the ACTIVE predictions and then updates them one by one.
\<close>





text \<open>
  The work in flight: a cycle with the tickers it has still to visit; a cycle between its
  duplicate check and its insert; a grader with the ACTIVE rows it read and has still to
  grade; a grader between the insert of an outcome and the update of the status; a sweep
  (\<open>expireOldPredictions\<close> or \<open>expireStale\<close>, which do the same to the store) with the ACTIVE
  rows it read and has still to visit.
\<close>

datatype Task =
    Cycling TickEnv MarketSession bool bool "string list"
  | Storing TickEnv MarketSession bool bool string "real \<times> Prediction" "string list"
  | Grading string "PredictionRow list"
  | Closing string PredictionRow "PredictionRow list"
  | Expiring string "PredictionRow list"

text \<open>
  Of the work in flight: the keys about to be inserted, the ids of the predictions between
  outcome and status update, and the rows read as ACTIVE and still to be graded or expired.
\<close>

fun taskSlots :: "Task \<Rightarrow> (string \<times> PredictionDirection \<times> PredictionEngine) list" where
  "taskSlots (Storing env sess trading preMarket tk job tks)
     = [(ticker (snd job), direction (snd job), engine (snd job))]"
| "taskSlots (Cycling env sess trading preMarket tks) = []"
| "taskSlots (Grading nowIso rows) = []"
| "taskSlots (Closing nowIso pred rest) = []"
| "taskSlots (Expiring today rows) = []"

fun taskClosing :: "Task \<Rightarrow> nat list" where
  "taskClosing (Closing nowIso pred rest) = [rowId pred]"
| "taskClosing (Cycling env sess trading preMarket tks) = []"
| "taskClosing (Storing env sess trading preMarket tk job tks) = []"
| "taskClosing (Grading nowIso rows) = []"
| "taskClosing (Expiring today rows) = []"

fun taskPending :: "Task \<Rightarrow> PredictionRow list" where
  "taskPending (Grading nowIso rows) = rows"
| "taskPending (Closing nowIso pred rest) = rest"
| "taskPending (Expiring today rows) = rows"
| "taskPending (Cycling env sess trading preMarket tks) = []"
| "taskPending (Storing env sess trading preMarket tk job tks) = []"

definition storingSlots :: "Task list \<Rightarrow> (string \<times> PredictionDirection \<times> PredictionEngine) list" where
  "storingSlots ps = concat (map taskSlots ps)"

definition closingIds :: "Task list \<Rightarrow> nat list" where
  "closingIds ps = concat (map taskClosing ps)"

definition pendingRows :: "Task list \<Rightarrow> PredictionRow list" where
  "pendingRows ps = concat (map taskPending ps)"






lemma pool_append [simp]:
  "storingSlots (ps @ qs) = storingSlots ps @ storingSlots qs"
  "closingIds (ps @ qs) = closingIds ps @ closingIds qs"
  "pendingRows (ps @ qs) = pendingRows ps @ pendingRows qs"
  by (simp_all add: storingSlots_def closingIds_def pendingRows_def)

lemma pool_Cons [simp]:
  "storingSlots (task # ps) = taskSlots task @ storingSlots ps"
  "closingIds (task # ps) = taskClosing task @ closingIds ps"
  "pendingRows (task # ps) = taskPending task @ pendingRows ps"
  by (simp_all add: storingSlots_def closingIds_def pendingRows_def)

lemma pool_Nil [simp]: "storingSlots [] = []" "closingIds [] = []" "pendingRows [] = []"
  by (simp_all add: storingSlots_def closingIds_def pendingRows_def)






subsection \<open>What a step of a run does to the store\<close>






subsection \<open>Keys in the store and keys about to be stored\<close>


subsection \<open>Outcomes and statuses while runs overlap\<close>

text \<open>
  The coupling of outcomes and statuses, given the ids \<open>C\<close> of the predictions between the
  grader's insert and its update and the ids \<open>R\<close> of the rows a grader or a sweep has read as
  ACTIVE and not visited yet: a prediction has one outcome when it is CLOSED or in \<open>C\<close> and
  none otherwise, and no prediction of \<open>C\<close> or \<open>R\<close> is CLOSED.
\<close>

definition coupledWith :: "Database \<Rightarrow> nat set \<Rightarrow> nat set \<Rightarrow> bool" where
  "coupledWith db C R \<longleftrightarrow>
     idsFresh db
     \<and> (\<forall>p \<in> set (predictions db).
           outcomeCount db (rowId p) = (if status p = ''CLOSED'' \<or> rowId p \<in> C then 1 else 0))
     \<and> (\<forall>p \<in> set (predictions db). rowId p \<in> C \<union> R \<longrightarrow> status p \<noteq> ''CLOSED'')
     \<and> (\<forall>i \<in> C \<union> R. i < nextPredictionId db)"







text \<open>The ids a run in flight holds, and those of all runs in flight.\<close>

definition taskIds :: "Task \<Rightarrow> nat list" where
  "taskIds task = taskClosing task @ map rowId (taskPending task)"

definition poolIds :: "Task list \<Rightarrow> nat list" where
  "poolIds ps = concat (map taskIds ps)"

lemma poolIds_simps [simp]:
  "poolIds [] = []" "poolIds (task # ps) = taskIds task @ poolIds ps"
  "poolIds (ps @ qs) = poolIds ps @ poolIds qs"
  by (simp_all add: poolIds_def)




definition coupled :: "Database \<Rightarrow> Task list \<Rightarrow> bool" where
  "coupled db ps \<longleftrightarrow>
     distinct (poolIds ps)
     \<and> coupledWith db (set (closingIds ps)) (rowId ` set (pendingRows ps))"











text \<open>At a step where no grader is between its insert and its update.\<close>

lemma coupled_outcomeCoupled:
  assumes "coupled db ps" "closingIds ps = []"
  shows "outcomeCoupled db"
  using assms by (simp add: coupled_def coupledWith_def outcomeCoupled_def)

subsection \<open>Two cycles that overlap\<close>





subsection \<open>A grader between its two statements, and two graders that overlap\<close>























subsection \<open>The sequential day as a run of the overlapping daemon\<close>







end
